theory Spec2Isabelle
  imports Complex_Main
begin

section \<open>JavaScript numbers\<close>

text \<open>
  The actions coerce the amount field with \<^verbatim>\<open>z.coerce.number()\<close>, compare it with
  \<^verbatim>\<open>0\<close> and multiply it by \<^verbatim>\<open>100\<close>. A JavaScript number is an IEEE 754 double:
  \<^verbatim>\<open>NaN\<close>, the two infinities, or a finite value, kept here as the rational it denotes.
  The sign of zero is not kept (\<^verbatim>\<open>-0 <= 0\<close> and \<^verbatim>\<open>0 <= 0\<close> agree, and no action tells
  the two zeros apart).
\<close>

datatype jsnum = NaN | Num rat | PosInf | NegInf

text \<open>The number of binary digits of a positive integer; \<open>0\<close> below \<open>1\<close>.\<close>

fun bit_length :: "int \<Rightarrow> int" where
  "bit_length n = (if n \<le> 0 then 0 else 1 + bit_length (n div 2))"

declare bit_length.simps [simp del]

definition pow2 :: "int \<Rightarrow> rat" where
  "pow2 k = (if 0 \<le> k then 2 ^ nat k else 1 / 2 ^ nat (- k))"

definition pow10 :: "int \<Rightarrow> rat" where
  "pow10 k = (if 0 \<le> k then 10 ^ nat k else 1 / 10 ^ nat (- k))"

text \<open>
  \<open>ilog2 q\<close> is the exponent of the leading binary digit of a positive rational: the
  difference of the bit lengths of numerator and denominator, or one less.
\<close>

definition ilog2 :: "rat \<Rightarrow> int" where
  "ilog2 q =
     (let (n, d) = quotient_of q;
          e0 = bit_length n - bit_length d
      in if pow2 e0 \<le> q then e0 else e0 - 1)"

definition round_half_even :: "rat \<Rightarrow> int" where
  "round_half_even s =
     (let m = \<lfloor>s\<rfloor>; r = s - of_int m
      in if r < 1 / 2 then m
         else if 1 / 2 < r then m + 1
         else if even m then m else m + 1)"

text \<open>
  Rounding of a positive rational to 53 significant binary digits, ties to even. The unit
  in the last place is \<open>2 ^ (e - 52)\<close> for the exponent \<open>e\<close> of the leading digit, and
  \<open>2 ^ - 1074\<close> below the normal range.
\<close>

definition round_pos :: "rat \<Rightarrow> rat" where
  "round_pos q =
     (let u = max (ilog2 q) (- 1022) - 52
      in of_int (round_half_even (q / pow2 u)) * pow2 u)"

text \<open>
  The double nearest to a rational. A magnitude that rounds to \<open>2 ^ 1024\<close> or more
  overflows to an infinity; that needs a leading digit at exponent \<open>1023\<close> or above, so
  the comparison is made there only.
\<close>

definition to_double :: "rat \<Rightarrow> jsnum" where
  "to_double q =
     (if q = 0 then Num 0
      else
        let r = round_pos \<bar>q\<bar>;
            overflow = (if ilog2 \<bar>q\<bar> < 1023 then False else pow2 1024 \<le> r)
        in if overflow then (if 0 < q then PosInf else NegInf)
           else Num (if 0 < q then r else - r))"

text \<open>\<^verbatim>\<open>a <= b\<close>: false as soon as one side is \<^verbatim>\<open>NaN\<close>.\<close>

fun js_le :: "jsnum \<Rightarrow> jsnum \<Rightarrow> bool" where
  "js_le NaN _ = False"
| "js_le _ NaN = False"
| "js_le NegInf _ = True"
| "js_le _ PosInf = True"
| "js_le (Num a) (Num b) = (a \<le> b)"
| "js_le PosInf _ = False"
| "js_le (Num a) NegInf = False"

fun js_lt :: "jsnum \<Rightarrow> jsnum \<Rightarrow> bool" where
  "js_lt NaN _ = False"
| "js_lt _ NaN = False"
| "js_lt (Num a) (Num b) = (a < b)"
| "js_lt PosInf _ = False"
| "js_lt _ NegInf = False"
| "js_lt NegInf _ = True"
| "js_lt (Num a) PosInf = True"

fun js_neg :: "jsnum \<Rightarrow> jsnum" where
  "js_neg NaN = NaN"
| "js_neg (Num a) = Num (- a)"
| "js_neg PosInf = NegInf"
| "js_neg NegInf = PosInf"

text \<open>\<^verbatim>\<open>a * b\<close>: the exact product rounded; an infinity times zero is \<^verbatim>\<open>NaN\<close>.\<close>

fun js_mul :: "jsnum \<Rightarrow> jsnum \<Rightarrow> jsnum" where
  "js_mul NaN _ = NaN"
| "js_mul _ NaN = NaN"
| "js_mul (Num a) (Num b) = to_double (a * b)"
| "js_mul PosInf (Num b) = (if b = 0 then NaN else if 0 < b then PosInf else NegInf)"
| "js_mul NegInf (Num b) = (if b = 0 then NaN else if 0 < b then NegInf else PosInf)"
| "js_mul (Num a) PosInf = (if a = 0 then NaN else if 0 < a then PosInf else NegInf)"
| "js_mul (Num a) NegInf = (if a = 0 then NaN else if 0 < a then NegInf else PosInf)"
| "js_mul PosInf PosInf = PosInf"
| "js_mul NegInf NegInf = PosInf"
| "js_mul PosInf NegInf = NegInf"
| "js_mul NegInf PosInf = NegInf"

section \<open>\<^verbatim>\<open>Number(value)\<close> on a form entry\<close>

text \<open>
  \<^verbatim>\<open>formData.get(name)\<close> is the first entry of that name, a string or a \<^verbatim>\<open>File\<close>, or
  \<^verbatim>\<open>null\<close> when the form has none. Strings are lists of 8-bit characters, read as code
  units below 256.
\<close>

datatype FormDataEntryValue = Text string | File

type_synonym FormData = "(string \<times> FormDataEntryValue) list"

definition get :: "FormData \<Rightarrow> string \<Rightarrow> FormDataEntryValue option" where
  "get formData name = map_of formData name"

definition is_ws :: "char \<Rightarrow> bool" where
  "is_ws c = (c \<in> set [CHR 0x09, CHR 0x0A, CHR 0x0B, CHR 0x0C, CHR 0x0D, CHR 0x20, CHR 0xA0])"

definition is_digit :: "char \<Rightarrow> bool" where
  "is_digit c = (c \<in> set ''0123456789'')"

definition trim :: "string \<Rightarrow> string" where
  "trim s = rev (dropWhile is_ws (rev (dropWhile is_ws s)))"

text \<open>The value of a digit in radix up to 16; \<open>16\<close> for any other character.\<close>

definition digit_val :: "char \<Rightarrow> int" where
  "digit_val c =
     (case map_of
        [(CHR ''0'', 0), (CHR ''1'', 1), (CHR ''2'', 2), (CHR ''3'', 3), (CHR ''4'', 4),
         (CHR ''5'', 5), (CHR ''6'', 6), (CHR ''7'', 7), (CHR ''8'', 8), (CHR ''9'', 9),
         (CHR ''a'', 10), (CHR ''b'', 11), (CHR ''c'', 12), (CHR ''d'', 13), (CHR ''e'', 14),
         (CHR ''f'', 15), (CHR ''A'', 10), (CHR ''B'', 11), (CHR ''C'', 12), (CHR ''D'', 13),
         (CHR ''E'', 14), (CHR ''F'', 15)] c of
        Some v \<Rightarrow> v
      | None \<Rightarrow> 16)"

definition digits_val :: "int \<Rightarrow> string \<Rightarrow> int" where
  "digits_val radix ds = fold (\<lambda>c n. radix * n + digit_val c) ds 0"

text \<open>\<^verbatim>\<open>SignedInteger\<close> of an exponent part: an optional sign and at least one digit.\<close>

definition signed_integer :: "string \<Rightarrow> int option" where
  "signed_integer s =
     (let (neg, ds) =
            (case s of
               c # r \<Rightarrow> if c = CHR ''+'' then (False, r) else if c = CHR ''-'' then (True, r)
                        else (False, s)
             | [] \<Rightarrow> (False, []))
      in if ds \<noteq> [] \<and> list_all is_digit ds
         then Some (if neg then - digits_val 10 ds else digits_val 10 ds)
         else None)"

definition exponent_part :: "string \<Rightarrow> int option" where
  "exponent_part s =
     (case s of
        [] \<Rightarrow> Some 0
      | c # r \<Rightarrow> if c = CHR ''e'' \<or> c = CHR ''E'' then signed_integer r else None)"

text \<open>
  \<^verbatim>\<open>StrUnsignedDecimalLiteral\<close>: \<^verbatim>\<open>Infinity\<close>, or digits with an optional fraction and an
  optional exponent; at least one digit before or after the point.
\<close>

definition str_unsigned_decimal_literal :: "string \<Rightarrow> jsnum option" where
  "str_unsigned_decimal_literal s =
     (if s = ''Infinity'' then Some PosInf
      else
        let ip = takeWhile is_digit s;
            r1 = dropWhile is_digit s;
            (fp, r2) =
              (case r1 of
                 c # r \<Rightarrow> if c = CHR ''.'' then (takeWhile is_digit r, dropWhile is_digit r)
                          else ([], r1)
               | [] \<Rightarrow> ([], []))
        in if ip = [] \<and> fp = [] then None
           else
             (case exponent_part r2 of
                None \<Rightarrow> None
              | Some e \<Rightarrow>
                  Some (to_double (of_int (digits_val 10 (ip @ fp)) * pow10 (e - int (length fp))))))"

definition str_decimal_literal :: "string \<Rightarrow> jsnum option" where
  "str_decimal_literal s =
     (case s of
        c # r \<Rightarrow>
          if c = CHR ''+'' then str_unsigned_decimal_literal r
          else if c = CHR ''-'' then map_option js_neg (str_unsigned_decimal_literal r)
          else str_unsigned_decimal_literal s
      | [] \<Rightarrow> None)"

text \<open>\<^verbatim>\<open>NonDecimalIntegerLiteral\<close>: \<^verbatim>\<open>0x\<close>, \<^verbatim>\<open>0o\<close> or \<^verbatim>\<open>0b\<close> and digits of that radix.\<close>

definition non_decimal_integer_literal :: "string \<Rightarrow> jsnum option" where
  "non_decimal_integer_literal s =
     (case s of
        z # p # ds \<Rightarrow>
          (let radix =
                 (if p = CHR ''x'' \<or> p = CHR ''X'' then 16
                  else if p = CHR ''o'' \<or> p = CHR ''O'' then 8
                  else if p = CHR ''b'' \<or> p = CHR ''B'' then 2
                  else 0)
           in if z = CHR ''0'' \<and> radix \<noteq> 0 \<and> ds \<noteq> [] \<and> list_all (\<lambda>c. digit_val c < radix) ds
              then Some (to_double (of_int (digits_val radix ds)))
              else None)
      | _ \<Rightarrow> None)"

text \<open>\<^verbatim>\<open>StringToNumber\<close>: blank is \<open>0\<close>, a literal is its rounded value, the rest \<^verbatim>\<open>NaN\<close>.\<close>

definition StringToNumber :: "string \<Rightarrow> jsnum" where
  "StringToNumber s =
     (let t = trim s
      in if t = [] then Num 0
         else
           (case non_decimal_integer_literal t of
              Some v \<Rightarrow> v
            | None \<Rightarrow> (case str_decimal_literal t of Some v \<Rightarrow> v | None \<Rightarrow> NaN)))"

text \<open>
  \<^verbatim>\<open>Number(v)\<close> for what \<^verbatim>\<open>formData.get\<close> returns: \<^verbatim>\<open>null\<close> is \<open>0\<close>, a string is
  parsed, and a \<^verbatim>\<open>File\<close> object converts through the string \<^verbatim>\<open>[object File]\<close>.
\<close>

fun Number :: "FormDataEntryValue option \<Rightarrow> jsnum" where
  "Number None = Num 0"
| "Number (Some (Text s)) = StringToNumber s"
| "Number (Some File) = StringToNumber ''[object File]''"

section \<open>The validation schema\<close>

text \<open>
  The schema is built from three zod parsers. Each takes what \<^verbatim>\<open>formData.get\<close> returned
  and gives the typed value or the issues (code and message) it raised. A message given
  as \<^verbatim>\<open>invalid_type_error\<close> replaces the default one of an \<^verbatim>\<open>invalid_type\<close> issue only
  (the input is never \<^verbatim>\<open>undefined\<close> here, so \<^verbatim>\<open>required_error\<close> plays no part).
\<close>

datatype ZodIssueCode = invalid_type | invalid_enum_value | too_small

record ZodIssue =
  code :: ZodIssueCode
  path :: "string list"
  issue_message :: string

type_synonym 'a parsed = "(ZodIssueCode \<times> string) list + 'a"

fun parsedType :: "FormDataEntryValue option \<Rightarrow> string" where
  "parsedType None = ''null''"
| "parsedType (Some (Text s)) = ''string''"
| "parsedType (Some File) = ''object''"

definition invalid_type_message :: "string option \<Rightarrow> string \<Rightarrow> FormDataEntryValue option \<Rightarrow> string" where
  "invalid_type_message invalid_type_error expected v =
     (case invalid_type_error of
        Some m \<Rightarrow> m
      | None \<Rightarrow> ''Expected '' @ expected @ '', received '' @ parsedType v)"

text \<open>\<^verbatim>\<open>z.string({ invalid_type_error })\<close>: any string passes, the empty one too.\<close>

definition z_string :: "string option \<Rightarrow> FormDataEntryValue option \<Rightarrow> string parsed" where
  "z_string invalid_type_error v =
     (case v of
        Some (Text s) \<Rightarrow> Inr s
      | _ \<Rightarrow> Inl [(invalid_type, invalid_type_message invalid_type_error ''string'' v)])"

text \<open>
  \<^verbatim>\<open>z.coerce.number()\<close> with its checks: the input goes through \<^verbatim>\<open>Number\<close>; \<^verbatim>\<open>NaN\<close> is
  an \<^verbatim>\<open>invalid_type\<close> issue and no check runs; \<^verbatim>\<open>.gt(bound, { message })\<close> raises
  \<^verbatim>\<open>too_small\<close> when \<^verbatim>\<open>data <= bound\<close>.
\<close>

datatype number_check = Gt jsnum string

fun run_check :: "jsnum \<Rightarrow> number_check \<Rightarrow> (ZodIssueCode \<times> string) list" where
  "run_check n (Gt bound m) = (if js_le n bound then [(too_small, m)] else [])"

definition z_coerce_number :: "number_check list \<Rightarrow> FormDataEntryValue option \<Rightarrow> jsnum parsed" where
  "z_coerce_number checks v =
     (let n = Number v
      in if n = NaN then Inl [(invalid_type, ''Expected number, received nan'')]
         else
           (case concat (map (run_check n) checks) of
              [] \<Rightarrow> Inr n
            | i # is \<Rightarrow> Inl (i # is)))"

definition joinValues :: "string list \<Rightarrow> string" where
  "joinValues vs = concat (map (\<lambda>(i, val). (if i = 0 then [] else '' | '') @ [CHR 0x27] @ val @ [CHR 0x27])
                              (zip [0 ..< length vs] vs))"

text \<open>\<^verbatim>\<open>z.enum(values, { invalid_type_error })\<close>: a string of the list, and nothing else.\<close>

definition z_enum :: "string list \<Rightarrow> string option \<Rightarrow> FormDataEntryValue option \<Rightarrow> string parsed" where
  "z_enum vals invalid_type_error v =
     (case v of
        Some (Text s) \<Rightarrow>
          if s \<in> set vals then Inr s
          else Inl [(invalid_enum_value,
                     ''Invalid enum value. Expected '' @ joinValues vals @ '', received ''
                       @ [CHR 0x27] @ s @ [CHR 0x27])]
      | _ \<Rightarrow> Inl [(invalid_type, invalid_type_message invalid_type_error (joinValues vals) v)])"

text \<open>
  A \<^verbatim>\<open>z.object\<close> of three keys, parsed in the order of the shape: every key is parsed,
  the issues of all keys are collected under their key, and the data is returned only
  when there is none. The input object is the triple of the three values.
\<close>

definition field_issues :: "string \<Rightarrow> 'a parsed \<Rightarrow> ZodIssue list" where
  "field_issues key r =
     (case r of
        Inl is \<Rightarrow> map (\<lambda>(c, m). \<lparr>code = c, path = [key], issue_message = m\<rparr>) is
      | Inr _ \<Rightarrow> [])"

definition z_object ::
  "string \<times> ('r1 \<Rightarrow> 'a parsed) \<Rightarrow> string \<times> ('r2 \<Rightarrow> 'b parsed) \<Rightarrow> string \<times> ('r3 \<Rightarrow> 'c parsed) \<Rightarrow>
   'r1 \<times> 'r2 \<times> 'r3 \<Rightarrow> ZodIssue list + ('a \<times> 'b \<times> 'c)" where
  "z_object f1 f2 f3 input =
     (case input of (v1, v2, v3) \<Rightarrow>
        (let r1 = snd f1 v1; r2 = snd f2 v2; r3 = snd f3 v3
         in case (r1, r2, r3) of
              (Inr a, Inr b, Inr c) \<Rightarrow> Inr (a, b, c)
            | _ \<Rightarrow> Inl (field_issues (fst f1) r1 @ field_issues (fst f2) r2 @ field_issues (fst f3) r3)))"

text \<open>
  \<^verbatim>\<open>error.flatten().fieldErrors\<close>: the messages of the issues grouped by the first
  element of their path, keys in the order they first occur.
\<close>

fun add_field_error :: "string \<Rightarrow> string \<Rightarrow> (string \<times> string list) list \<Rightarrow> (string \<times> string list) list" where
  "add_field_error k m [] = [(k, [m])]"
| "add_field_error k m ((k', ms) # r) =
     (if k = k' then (k', ms @ [m]) # r else (k', ms) # add_field_error k m r)"

definition fieldErrors :: "ZodIssue list \<Rightarrow> (string \<times> string list) list" where
  "fieldErrors issues =
     fold (\<lambda>i acc. case path i of [] \<Rightarrow> acc | k # _ \<Rightarrow> add_field_error k (issue_message i) acc)
          issues []"

text \<open>
  \<^verbatim>\<open>FormSchema\<close> of the validating actions, and \<^verbatim>\<open>CreateInvoice\<close> and \<^verbatim>\<open>UpdateInvoice\<close>,
  both \<^verbatim>\<open>FormSchema.omit({ id: true, date: true })\<close>: the keys \<^verbatim>\<open>customerId\<close>, \<^verbatim>\<open>amount\<close>
  and \<^verbatim>\<open>status\<close> are left, in that order.
\<close>

definition FormSchema_id :: "FormDataEntryValue option \<Rightarrow> string parsed" where
  "FormSchema_id = z_string None"

definition FormSchema_customerId :: "FormDataEntryValue option \<Rightarrow> string parsed" where
  "FormSchema_customerId = z_string (Some ''Please select a customer.'')"

definition FormSchema_amount :: "FormDataEntryValue option \<Rightarrow> jsnum parsed" where
  "FormSchema_amount = z_coerce_number [Gt (Num 0) ''Please enter an amount greater than $0.'']"

definition FormSchema_status :: "FormDataEntryValue option \<Rightarrow> string parsed" where
  "FormSchema_status = z_enum [''pending'', ''paid''] (Some ''Please select an invoice status.'')"

definition FormSchema_date :: "FormDataEntryValue option \<Rightarrow> string parsed" where
  "FormSchema_date = z_string None"

type_synonym raw_fields =
  "FormDataEntryValue option \<times> FormDataEntryValue option \<times> FormDataEntryValue option"

definition CreateInvoice :: "raw_fields \<Rightarrow> ZodIssue list + (string \<times> jsnum \<times> string)" where
  "CreateInvoice =
     z_object (''customerId'', FormSchema_customerId) (''amount'', FormSchema_amount)
              (''status'', FormSchema_status)"

definition UpdateInvoice :: "raw_fields \<Rightarrow> ZodIssue list + (string \<times> jsnum \<times> string)" where
  "UpdateInvoice =
     z_object (''customerId'', FormSchema_customerId) (''amount'', FormSchema_amount)
              (''status'', FormSchema_status)"

text \<open>What an action or a page can throw.\<close>

datatype error = ZodError "ZodIssue list" | DatabaseError | FetchError string

datatype 'a SafeParseReturnType = Success 'a | Failure "ZodIssue list"

text \<open>
  Modelled from the spec: \<^verbatim>\<open>safeParse\<close> and \<^verbatim>\<open>parse\<close> of the zod library, which is not
  part of the sources. Validation with the safe-parse variant is total and returns a
  discriminated result, \<^verbatim>\<open>{ success: true, data }\<close> or \<^verbatim>\<open>{ success: false, error }\<close>, the
  error holding the issues from which the per-field message lists are taken;
  \<^verbatim>\<open>schema.parse(input)\<close> returns the data or throws the \<^verbatim>\<open>ZodError\<close>.
\<close>

definition safeParse :: "('i \<Rightarrow> ZodIssue list + 'a) \<Rightarrow> 'i \<Rightarrow> 'a SafeParseReturnType" where
  "safeParse schema input = (case schema input of Inl issues \<Rightarrow> Failure issues | Inr d \<Rightarrow> Success d)"

definition parse :: "('i \<Rightarrow> ZodIssue list + 'a) \<Rightarrow> 'i \<Rightarrow> error + 'a" where
  "parse schema input = (case schema input of Inl issues \<Rightarrow> Inl (ZodError issues) | Inr d \<Rightarrow> Inr d)"

section \<open>The database, the cache and the clock\<close>

text \<open>
  The actions reach the database through three statements on the table \<^verbatim>\<open>invoices\<close>.
  A row has the columns the statements name and the identifier the database generates.
  The amount column holds the number the statement was given.
\<close>

record invoice =
  inv_id :: string
  inv_customer_id :: string
  inv_amount :: jsnum
  inv_status :: string
  inv_date :: string

datatype statement =
    INSERT_INTO_invoices string jsnum string string
  | UPDATE_invoices string jsnum string string
  | DELETE_FROM_invoices string

text \<open>
  \<^verbatim>\<open>INSERT INTO invoices (customer_id, amount, status, date) VALUES (...)\<close>,
  \<^verbatim>\<open>UPDATE invoices SET customer_id = ..., amount = ..., status = ... WHERE id = ...\<close> and
  \<^verbatim>\<open>DELETE FROM invoices WHERE id = ...\<close>, on the rows of the table; \<open>new_id\<close> is the
  identifier the database generates for an inserted row.
\<close>

fun execute :: "string \<Rightarrow> statement \<Rightarrow> invoice list \<Rightarrow> invoice list" where
  "execute new_id (INSERT_INTO_invoices customerId amountInCents status date) rows =
     rows @ [\<lparr>inv_id = new_id, inv_customer_id = customerId, inv_amount = amountInCents,
               inv_status = status, inv_date = date\<rparr>]"
| "execute new_id (UPDATE_invoices customerId amountInCents status ident) rows =
     map (\<lambda>r. if inv_id r = ident
              then r\<lparr>inv_customer_id := customerId, inv_amount := amountInCents, inv_status := status\<rparr>
              else r) rows"
| "execute new_id (DELETE_FROM_invoices ident) rows = filter (\<lambda>r. inv_id r \<noteq> ident) rows"

text \<open>
  \<^verbatim>\<open>new Date()\<close>, as the calendar fields of the current instant in UTC, which are what
  \<^verbatim>\<open>toISOString\<close> prints.
\<close>

record Date =
  year :: int
  month :: nat
  day :: nat
  hours :: nat
  minutes :: nat
  seconds :: nat
  milliseconds :: nat

definition digit_char :: "nat \<Rightarrow> char" where
  "digit_char n = ''0123456789'' ! n"

text \<open>The decimal digits of a number, without leading zeros.\<close>

fun dec :: "nat \<Rightarrow> string" where
  "dec n = (if n < 10 then [digit_char n] else dec (n div 10) @ [digit_char (n mod 10)])"

declare dec.simps [simp del]

definition pad :: "nat \<Rightarrow> string \<Rightarrow> string" where
  "pad w s = replicate (w - length s) (CHR ''0'') @ s"

text \<open>
  \<^verbatim>\<open>YYYY-MM-DDTHH:mm:ss.sssZ\<close>; a year outside \<open>0 .. 9999\<close> is printed with a sign and six
  digits.
\<close>

definition toISOString :: "Date \<Rightarrow> string" where
  "toISOString d =
     (if 0 \<le> year d \<and> year d \<le> 9999 then pad 4 (dec (nat (year d)))
      else (if year d < 0 then ''-'' else ''+'') @ pad 6 (dec (nat \<bar>year d\<bar>)))
     @ ''-'' @ pad 2 (dec (month d)) @ ''-'' @ pad 2 (dec (day d))
     @ ''T'' @ pad 2 (dec (hours d)) @ '':'' @ pad 2 (dec (minutes d)) @ '':''
     @ pad 2 (dec (seconds d)) @ ''.'' @ pad 3 (dec (milliseconds d)) @ ''Z''"

text \<open>\<^verbatim>\<open>s.split(c)\<close> for a one-character separator: the pieces between its occurrences.\<close>

fun split :: "char \<Rightarrow> string \<Rightarrow> string list" where
  "split c [] = [[]]"
| "split c (x # xs) =
     (if x = c then [] # split c xs
      else (case split c xs of p # ps \<Rightarrow> (x # p) # ps | [] \<Rightarrow> [[x]]))"

text \<open>
  What lies outside the action: the clock, the identifier the database will generate,
  and whether the driver throws on a statement. What the actions change: the rows, the
  statements sent to the driver, and the paths whose cached render was marked stale.
\<close>

record env =
  now :: Date
  generated_id :: string
  sql_throws :: "statement \<Rightarrow> bool"

record world =
  invoices :: "invoice list"
  statements :: "statement list"
  revalidated :: "string list"

text \<open>\<^verbatim>\<open>await sql`...`\<close>: the statement is sent; it throws, and changes no row, or runs.\<close>

definition sql :: "env \<Rightarrow> statement \<Rightarrow> world \<Rightarrow> (error + unit) \<times> world" where
  "sql e st w =
     (let w1 = w\<lparr>statements := statements w @ [st]\<rparr>
      in if sql_throws e st then (Inl DatabaseError, w1)
         else (Inr (), w1\<lparr>invoices := execute (generated_id e) st (invoices w)\<rparr>))"

definition revalidatePath :: "string \<Rightarrow> world \<Rightarrow> world" where
  "revalidatePath p w = w\<lparr>revalidated := revalidated w @ [p]\<rparr>"

section \<open>The actions\<close>

text \<open>
  An action, or a page, ends by returning a value, or by one of the calls that never
  return: \<^verbatim>\<open>redirect(path)\<close> and \<^verbatim>\<open>notFound()\<close> throw the framework's signal, and any
  other exception leaves the function as it is.
\<close>

datatype 'a completion = Returned 'a | Redirected string | NotFound | Thrown error

record State =
  errors :: "(string \<times> string list) list option"
  message :: "string option"

definition createInvoice :: "env \<Rightarrow> State \<Rightarrow> FormData \<Rightarrow> world \<Rightarrow> State completion \<times> world" where
  "createInvoice e prevState formData w =
     (let validatedFields =
            safeParse CreateInvoice
              (get formData ''customerId'', get formData ''amount'', get formData ''status'')
      in case validatedFields of
           Failure issues \<Rightarrow>
             (Returned \<lparr>errors = Some (fieldErrors issues),
                        message = Some ''Missing Fields. Failed to Create Invoice.''\<rparr>, w)
         | Success (customerId, amount, status) \<Rightarrow>
             (let amountInCents = js_mul amount (Num 100);
                  date = split (CHR ''T'') (toISOString (now e)) ! 0
              in case sql e (INSERT_INTO_invoices customerId amountInCents status date) w of
                   (Inl err, w1) \<Rightarrow>
                     (Returned \<lparr>errors = None,
                                message = Some ''Database Error: Failed to Create Invoice.''\<rparr>, w1)
                 | (Inr u, w1) \<Rightarrow>
                     (Redirected ''/dashboard/invoices'', revalidatePath ''/dashboard/invoices'' w1)))"

definition updateInvoice ::
  "env \<Rightarrow> string \<Rightarrow> State \<Rightarrow> FormData \<Rightarrow> world \<Rightarrow> State completion \<times> world" where
  "updateInvoice e ident prevState formData w =
     (let validatedFields =
            safeParse UpdateInvoice
              (get formData ''customerId'', get formData ''amount'', get formData ''status'')
      in case validatedFields of
           Failure issues \<Rightarrow>
             (Returned \<lparr>errors = Some (fieldErrors issues),
                        message = Some ''Missing Fields. Failed to Update Invoice.''\<rparr>, w)
         | Success (customerId, amount, status) \<Rightarrow>
             (let amountInCents = js_mul amount (Num 100)
              in case sql e (UPDATE_invoices customerId amountInCents status ident) w of
                   (Inl err, w1) \<Rightarrow>
                     (Returned \<lparr>errors = None,
                                message = Some ''Database Error: Failed to Update Invoice.''\<rparr>, w1)
                 | (Inr u, w1) \<Rightarrow>
                     (Redirected ''/dashboard/invoices'', revalidatePath ''/dashboard/invoices'' w1)))"

definition deleteInvoice :: "env \<Rightarrow> string \<Rightarrow> world \<Rightarrow> State completion \<times> world" where
  "deleteInvoice e ident w =
     (case sql e (DELETE_FROM_invoices ident) w of
        (Inr u, w1) \<Rightarrow>
          (Returned \<lparr>errors = None, message = Some ''Deleted Invoice.''\<rparr>,
           revalidatePath ''/dashboard/invoices'' w1)
      | (Inl err, w1) \<Rightarrow>
          (Returned \<lparr>errors = None, message = Some ''Database Error: Failed to Delete Invoice.''\<rparr>,
           w1))"

section \<open>The edit page\<close>

text \<open>
  \<^verbatim>\<open>fetchInvoiceById\<close> and \<^verbatim>\<open>fetchCustomers\<close> come from the data module: each resolves
  with its value (no invoice when no row matches) or rejects. \<^verbatim>\<open>await Promise.all\<close>
  gives both values once both have resolved and throws the error of the promise that
  rejects first. Which of two rejections comes first is a matter of timing outside the
  page: \<open>second_first\<close> says that the second promise rejects before the first.
\<close>

definition Promise_all :: "bool \<Rightarrow> error + 'a \<Rightarrow> error + 'b \<Rightarrow> error + ('a \<times> 'b)" where
  "Promise_all second_first a b =
     (case a of
        Inl err1 \<Rightarrow>
          (case b of
             Inl err2 \<Rightarrow> Inl (if second_first then err2 else err1)
           | Inr y \<Rightarrow> Inl err1)
      | Inr x \<Rightarrow> (case b of Inl err2 \<Rightarrow> Inl err2 | Inr y \<Rightarrow> Inr (x, y)))"

record breadcrumb =
  label :: string
  href :: string
  active :: "bool option"

text \<open>The element the page returns: the breadcrumbs and the form with its two props.\<close>

record ('i, 'c) main =
  Breadcrumbs :: "breadcrumb list"
  Form_invoice :: 'i
  Form_customers :: 'c


section \<open>The actions and the page without validation messages\<close>

text \<open>
  \<^verbatim>\<open>app/lib/actions.ts\<close> holds the three actions in the form they have before the
  validation messages, the \<^verbatim>\<open>State\<close> result and the \<^verbatim>\<open>try\<close>/\<^verbatim>\<open>catch\<close> blocks: the schema
  has no message and no bound on the amount, \<^verbatim>\<open>parse\<close> throws the \<^verbatim>\<open>ZodError\<close>, an
  exception of the driver leaves the action, and nothing is returned. The edit page has
  the same earlier form, without the \<^verbatim>\<open>notFound()\<close> guard. They are kept under the
  suffix \<open>_plain\<close>.
\<close>

definition FormSchema_plain_customerId :: "FormDataEntryValue option \<Rightarrow> string parsed" where
  "FormSchema_plain_customerId = z_string None"

definition FormSchema_plain_amount :: "FormDataEntryValue option \<Rightarrow> jsnum parsed" where
  "FormSchema_plain_amount = z_coerce_number []"

definition FormSchema_plain_status :: "FormDataEntryValue option \<Rightarrow> string parsed" where
  "FormSchema_plain_status = z_enum [''pending'', ''paid''] None"

definition CreateInvoice_plain :: "raw_fields \<Rightarrow> ZodIssue list + (string \<times> jsnum \<times> string)" where
  "CreateInvoice_plain =
     z_object (''customerId'', FormSchema_plain_customerId) (''amount'', FormSchema_plain_amount)
              (''status'', FormSchema_plain_status)"

definition UpdateInvoice_plain :: "raw_fields \<Rightarrow> ZodIssue list + (string \<times> jsnum \<times> string)" where
  "UpdateInvoice_plain =
     z_object (''customerId'', FormSchema_plain_customerId) (''amount'', FormSchema_plain_amount)
              (''status'', FormSchema_plain_status)"

definition createInvoice_plain :: "env \<Rightarrow> FormData \<Rightarrow> world \<Rightarrow> unit completion \<times> world" where
  "createInvoice_plain e formData w =
     (case parse CreateInvoice_plain
             (get formData ''customerId'', get formData ''amount'', get formData ''status'') of
        Inl err \<Rightarrow> (Thrown err, w)
      | Inr (customerId, amount, status) \<Rightarrow>
          (let amountInCents = js_mul amount (Num 100);
               date = split (CHR ''T'') (toISOString (now e)) ! 0
           in case sql e (INSERT_INTO_invoices customerId amountInCents status date) w of
                (Inl err, w1) \<Rightarrow> (Thrown err, w1)
              | (Inr u, w1) \<Rightarrow>
                  (Redirected ''/dashboard/invoices'', revalidatePath ''/dashboard/invoices'' w1)))"

definition updateInvoice_plain ::
  "env \<Rightarrow> string \<Rightarrow> FormData \<Rightarrow> world \<Rightarrow> unit completion \<times> world" where
  "updateInvoice_plain e ident formData w =
     (case parse UpdateInvoice_plain
             (get formData ''customerId'', get formData ''amount'', get formData ''status'') of
        Inl err \<Rightarrow> (Thrown err, w)
      | Inr (customerId, amount, status) \<Rightarrow>
          (let amountInCents = js_mul amount (Num 100)
           in case sql e (UPDATE_invoices customerId amountInCents status ident) w of
                (Inl err, w1) \<Rightarrow> (Thrown err, w1)
              | (Inr u, w1) \<Rightarrow>
                  (Redirected ''/dashboard/invoices'', revalidatePath ''/dashboard/invoices'' w1)))"

definition deleteInvoice_plain :: "env \<Rightarrow> string \<Rightarrow> world \<Rightarrow> unit completion \<times> world" where
  "deleteInvoice_plain e ident w =
     (case sql e (DELETE_FROM_invoices ident) w of
        (Inl err, w1) \<Rightarrow> (Thrown err, w1)
      | (Inr u, w1) \<Rightarrow> (Returned (), revalidatePath ''/dashboard/invoices'' w1))"

definition Page_plain ::
  "bool \<Rightarrow> (string \<Rightarrow> error + 'i option) \<Rightarrow> (error + 'c) \<Rightarrow> string \<Rightarrow>
   ('i option, 'c) main completion" where
  "Page_plain second_first fetchInvoiceById fetchCustomers ident =
     (case Promise_all second_first (fetchInvoiceById ident) fetchCustomers of
        Inl err \<Rightarrow> Thrown err
      | Inr (invoice, customers) \<Rightarrow>
          Returned
            \<lparr>Breadcrumbs =
               [\<lparr>label = ''Invoices'', href = ''/dashboard/invoices'', active = None\<rparr>,
                \<lparr>label = ''Edit Invoice'',
                 href = ''/dashboard/invoices/'' @ ident @ ''/edit'', active = Some True\<rparr>],
             Form_invoice = invoice, Form_customers = customers\<rparr>)"

section \<open>The stated format of the date, and sample inputs\<close>

text \<open>
  The creation date is specified as the calendar date in the form \<^verbatim>\<open>YYYY-MM-DD\<close>: four
  digits of the year, two of the month, two of the day.
\<close>

definition YYYY_MM_DD :: "Date \<Rightarrow> string" where
  "YYYY_MM_DD d =
     (let y = nat (year d)
      in [digit_char (y div 1000), digit_char (y div 100 mod 10), digit_char (y div 10 mod 10),
          digit_char (y mod 10)]
         @ ''-'' @ [digit_char (month d div 10), digit_char (month d mod 10)]
         @ ''-'' @ [digit_char (day d div 10), digit_char (day d mod 10)])"

text \<open>
  A driver that accepts every statement and one that throws on every statement, a table
  of two rows, and four submissions: a valid one, one with a negative amount, one
  without an amount and one with an amount of a dollar and ten cents.
\<close>

definition accepting :: env where
  "accepting =
     \<lparr>now = \<lparr>year = 2024, month = 3, day = 7, hours = 9, minutes = 5, seconds = 1,
              milliseconds = 42\<rparr>,
      generated_id = ''inv-3'', sql_throws = (\<lambda>st. False)\<rparr>"

definition throwing :: env where
  "throwing = accepting\<lparr>sql_throws := (\<lambda>st. True)\<rparr>"

definition two_rows :: world where
  "two_rows =
     \<lparr>invoices =
        [\<lparr>inv_id = ''inv-1'', inv_customer_id = ''c1'', inv_amount = Num 1000,
          inv_status = ''paid'', inv_date = ''2023-12-01''\<rparr>,
         \<lparr>inv_id = ''inv-2'', inv_customer_id = ''c2'', inv_amount = Num 250,
          inv_status = ''pending'', inv_date = ''2024-01-15''\<rparr>],
      statements = [], revalidated = []\<rparr>"

definition initialState :: State where
  "initialState = \<lparr>errors = Some [], message = None\<rparr>"

definition valid_form :: FormData where
  "valid_form = [(''customerId'', Text ''c1''), (''amount'', Text ''45.50''), (''status'', Text ''pending'')]"


definition no_amount_form :: FormData where
  "no_amount_form = [(''customerId'', Text ''c1''), (''status'', Text ''paid'')]"

definition fractional_form :: FormData where
  "fractional_form = [(''customerId'', Text ''c1''), (''amount'', Text ''1.1''), (''status'', Text ''pending'')]"


section \<open>Properties of the rounding\<close>

text \<open>
  The exponent found by \<open>ilog2\<close> is the one of the leading binary digit; rounding moves a
  value by at most half a unit in the last place; below the exponent \<open>1023\<close> it cannot
  reach \<open>2 ^ 1024\<close>, so \<open>to_double\<close> overflows exactly when the rounded magnitude does;
  and a product in the normal range is an infinity or within the relative error
  \<open>2 ^ - 53\<close> of the exact product.
\<close>

lemma pow2_powi: "pow2 k = 2 powi k"
  by (simp add: pow2_def power_int_def field_simps)

lemma pow2_pos: "0 < pow2 k"
  by (simp add: pow2_powi)

lemma pow2_add: "pow2 (a + b) = pow2 a * pow2 b"
  by (simp add: pow2_powi power_int_add)

lemma pow2_mono: "a \<le> b \<Longrightarrow> pow2 a \<le> pow2 b"
  by (simp add: pow2_powi power_int_increasing)

lemma pow2_nat: "pow2 (int n) = 2 ^ n"
  by (simp add: pow2_def)

lemma bit_length_nonneg: "0 \<le> bit_length n"
  by (induction n rule: bit_length.induct) (subst bit_length.simps, simp)

lemma bit_length_pos: "0 < n \<Longrightarrow> 1 \<le> bit_length n"
  using bit_length_nonneg [of "n div 2"] by (subst bit_length.simps) simp

lemma bit_length_bounds:
  "0 < n \<Longrightarrow> 2 ^ nat (bit_length n - 1) \<le> n \<and> n < 2 ^ nat (bit_length n)"
proof (induction n rule: bit_length.induct)
  case (1 n)
  show ?case
  proof (cases "n div 2 = 0")
    case True
    with "1.prems" have n1: "n = 1" by linarith
    show ?thesis
      unfolding n1 by (subst bit_length.simps, subst bit_length.simps, simp)+
  next
    case False
    with "1.prems" have h: "0 < n div 2" by linarith
    from "1.prems" have nn: "\<not> n \<le> 0" by simp
    from "1.IH" [OF nn h]
    have ih: "2 ^ nat (bit_length (n div 2) - 1) \<le> n div 2" "n div 2 < 2 ^ nat (bit_length (n div 2))"
      by simp_all
    have bl: "bit_length n = 1 + bit_length (n div 2)"
      using nn by (subst bit_length.simps) simp
    have b1: "1 \<le> bit_length (n div 2)"
      using bit_length_pos [OF h] .
    have e1: "nat (bit_length n - 1) = Suc (nat (bit_length (n div 2) - 1))"
      using bl b1 by simp
    have e2: "nat (bit_length n) = Suc (nat (bit_length (n div 2)))"
      using bl b1 by simp
    have "2 * 2 ^ nat (bit_length (n div 2) - 1) \<le> n"
      using ih(1) by linarith
    moreover have "n < 2 * 2 ^ nat (bit_length (n div 2))"
      using ih(2) by linarith
    ultimately show ?thesis
      unfolding e1 e2 by simp
  qed
qed


lemma ilog2_bounds:
  assumes "0 < q"
  shows "pow2 (ilog2 q) \<le> q \<and> q < pow2 (ilog2 q + 1)"
proof -
  obtain n d where nd: "quotient_of q = (n, d)"
    by (cases "quotient_of q") auto
  have d: "0 < d"
    using quotient_of_denom_pos [OF nd] .
  have q: "q = of_int n / of_int d"
    using quotient_of_div [OF nd] .
  have n: "0 < n"
    using assms d q by (simp add: zero_less_divide_iff)
  define bn where "bn = bit_length n"
  define bd where "bd = bit_length d"
  have bn1: "1 \<le> bn" and bd1: "1 \<le> bd"
    using bit_length_pos n d by (simp_all add: bn_def bd_def)
  have nb: "(2::int) ^ nat (bn - 1) \<le> n" "n < 2 ^ nat bn"
    using bit_length_bounds [OF n] by (simp_all add: bn_def)
  have db: "(2::int) ^ nat (bd - 1) \<le> d" "d < 2 ^ nat bd"
    using bit_length_bounds [OF d] by (simp_all add: bd_def)
  have nr: "pow2 (bn - 1) \<le> of_int n" "of_int n < pow2 bn"
  proof -
    have "(of_int ((2::int) ^ nat (bn - 1)) :: rat) \<le> of_int n"
      using nb(1) by (simp only: of_int_le_iff)
    then show "pow2 (bn - 1) \<le> of_int n"
      using bn1 by (simp add: pow2_def)
    have "(of_int n :: rat) < of_int ((2::int) ^ nat bn)"
      using nb(2) by (simp only: of_int_less_iff)
    then show "of_int n < pow2 bn"
      using bn1 by (simp add: pow2_def)
  qed
  have dr: "pow2 (bd - 1) \<le> of_int d" "of_int d < pow2 bd"
  proof -
    have "(of_int ((2::int) ^ nat (bd - 1)) :: rat) \<le> of_int d"
      using db(1) by (simp only: of_int_le_iff)
    then show "pow2 (bd - 1) \<le> of_int d"
      using bd1 by (simp add: pow2_def)
    have "(of_int d :: rat) < of_int ((2::int) ^ nat bd)"
      using db(2) by (simp only: of_int_less_iff)
    then show "of_int d < pow2 bd"
      using bd1 by (simp add: pow2_def)
  qed
  have dpos: "(0::rat) < of_int d"
    using d by simp
  have lower: "pow2 (bn - bd - 1) < q"
  proof -
    have "pow2 (bn - bd - 1) * of_int d < pow2 (bn - bd - 1) * pow2 bd"
      using dr(2) pow2_pos [of "bn - bd - 1"] by simp
    also have "\<dots> = pow2 (bn - 1)"
      by (simp add: pow2_add [symmetric])
    also have "\<dots> \<le> of_int n"
      using nr(1) .
    finally show ?thesis
      using dpos by (simp add: q pos_less_divide_eq)
  qed
  have upper: "q < pow2 (bn - bd + 1)"
  proof -
    have "of_int n < pow2 bn"
      using nr(2) .
    also have "\<dots> = pow2 (bn - bd + 1) * pow2 (bd - 1)"
      by (simp add: pow2_add [symmetric])
    also have "\<dots> \<le> pow2 (bn - bd + 1) * of_int d"
      using dr(1) pow2_pos [of "bn - bd + 1"] by simp
    finally show ?thesis
      using dpos by (simp add: q pos_divide_less_eq)
  qed
  have il: "ilog2 q = (if pow2 (bn - bd) \<le> q then bn - bd else bn - bd - 1)"
    by (simp add: ilog2_def nd bn_def bd_def Let_def)
  show ?thesis
  proof (cases "pow2 (bn - bd) \<le> q")
    case True
    then show ?thesis using upper il by simp
  next
    case False
    then show ?thesis using lower il by simp
  qed
qed

lemma round_half_even_error: "\<bar>of_int (round_half_even s) - s\<bar> \<le> 1 / 2"
proof -
  define m where "m = \<lfloor>s\<rfloor>"
  define r where "r = s - of_int m"
  have r0: "0 \<le> r" and r1: "r < 1"
    unfolding r_def m_def by linarith+
  have s: "s = of_int m + r"
    by (simp add: r_def)
  have rhe: "round_half_even s =
      (if r < 1 / 2 then m else if 1 / 2 < r then m + 1 else if even m then m else m + 1)"
    by (simp add: round_half_even_def Let_def m_def r_def)
  have "\<bar>of_int (if r < 1 / 2 then m else if 1 / 2 < r then m + 1 else if even m then m else m + 1)
          - (of_int m + r)\<bar> \<le> 1 / 2"
    using r0 r1 by (auto simp add: abs_if)
  then show ?thesis
    using rhe s by simp
qed

lemma round_half_even_bounds: "\<lfloor>s\<rfloor> \<le> round_half_even s \<and> round_half_even s \<le> \<lfloor>s\<rfloor> + 1"
  by (simp add: round_half_even_def Let_def)


lemma round_pos_error:
  "\<bar>round_pos q - q\<bar> \<le> pow2 (max (ilog2 q) (- 1022) - 52) / 2"
proof -
  define u where "u = max (ilog2 q) (- 1022) - 52"
  have up: "0 < pow2 u"
    by (rule pow2_pos)
  have "round_pos q - q = (of_int (round_half_even (q / pow2 u)) - q / pow2 u) * pow2 u"
    using up by (simp add: round_pos_def Let_def u_def [symmetric] left_diff_distrib)
  then have "\<bar>round_pos q - q\<bar> = \<bar>of_int (round_half_even (q / pow2 u)) - q / pow2 u\<bar> * pow2 u"
    using up by (simp add: abs_mult)
  also have "\<dots> \<le> 1 / 2 * pow2 u"
    using round_half_even_error [of "q / pow2 u"] up by (intro mult_right_mono) simp_all
  finally show ?thesis
    by (simp add: u_def)
qed

lemma ilog2_lower: "pow2 k \<le> q \<Longrightarrow> k \<le> ilog2 q"
proof (rule ccontr)
  assume k: "pow2 k \<le> q" and "\<not> k \<le> ilog2 q"
  then have "ilog2 q + 1 \<le> k" by simp
  then have "pow2 (ilog2 q + 1) \<le> pow2 k" by (rule pow2_mono)
  moreover have "0 < q" using k pow2_pos [of k] by linarith
  ultimately show False
    using ilog2_bounds [of q] k by linarith
qed

lemma round_pos_relative:
  assumes "pow2 (- 1022) \<le> q"
  shows "\<bar>round_pos q - q\<bar> \<le> q / 2 ^ 53"
proof -
  have q: "0 < q"
    using assms pow2_pos [of "- 1022"] by linarith
  have e: "- 1022 \<le> ilog2 q"
    using ilog2_lower [OF assms] .
  have "pow2 (max (ilog2 q) (- 1022) - 52) / 2 = pow2 (ilog2 q + (- 53))"
    using e by (simp add: max_def pow2_powi power_int_diff)
  also have "\<dots> = pow2 (ilog2 q) / 2 ^ 53"
    by (simp only: pow2_add) (simp add: pow2_def)
  also have "\<dots> \<le> q / 2 ^ 53"
    using ilog2_bounds [OF q] by (simp add: divide_right_mono)
  finally show ?thesis
    using round_pos_error [of q] by linarith
qed

lemma round_pos_upper:
  assumes "0 < q"
  shows "round_pos q \<le> pow2 (max (ilog2 q) (- 1022) + 1)"
proof -
  define e where "e = max (ilog2 q) (- 1022)"
  define u where "u = e - 52"
  define s where "s = q / pow2 u"
  have up: "0 < pow2 u"
    by (rule pow2_pos)
  have split: "pow2 (e + 1) = 2 ^ 53 * pow2 u"
  proof -
    have "e + 1 = 53 + u" by (simp add: u_def)
    then have "pow2 (e + 1) = pow2 (53 + u)" by (simp only:)
    also have "\<dots> = pow2 53 * pow2 u" by (simp only: pow2_add)
    finally show ?thesis by (simp add: pow2_def)
  qed
  have "q < pow2 (ilog2 q + 1)"
    using ilog2_bounds [OF assms] by simp
  also have "\<dots> \<le> pow2 (e + 1)"
    by (intro pow2_mono) (simp add: e_def)
  finally have "s < 2 ^ 53"
    using up by (simp add: s_def split pos_divide_less_eq)
  then have "\<lfloor>s\<rfloor> < 2 ^ 53"
    by (simp add: floor_less_iff)
  then have "round_half_even s \<le> 2 ^ 53"
    using round_half_even_bounds [of s] by linarith
  then have "(of_int (round_half_even s) :: rat) \<le> of_int (2 ^ 53)"
    by (simp only: of_int_le_iff)
  then have "of_int (round_half_even s) * pow2 u \<le> 2 ^ 53 * pow2 u"
    using up by (intro mult_right_mono) simp_all
  then show ?thesis
    by (simp add: round_pos_def Let_def e_def [symmetric] u_def [symmetric] s_def [symmetric] split)
qed

lemma to_double_overflow:
  "to_double q =
     (if q = 0 then Num 0
      else if pow2 1024 \<le> round_pos \<bar>q\<bar> then (if 0 < q then PosInf else NegInf)
      else Num (if 0 < q then round_pos \<bar>q\<bar> else - round_pos \<bar>q\<bar>))"
proof (cases "q \<noteq> 0 \<and> ilog2 \<bar>q\<bar> < 1023")
  case True
  then have pos: "0 < \<bar>q\<bar>" by simp
  have "round_pos \<bar>q\<bar> \<le> pow2 (max (ilog2 \<bar>q\<bar>) (- 1022) + 1)"
    using round_pos_upper [OF pos] .
  also have "\<dots> \<le> pow2 1023"
    using True by (intro pow2_mono) simp
  also have "\<dots> < pow2 1024"
    by (simp add: pow2_def)
  finally have "\<not> pow2 1024 \<le> round_pos \<bar>q\<bar>"
    by simp
  then show ?thesis
    using True by (simp add: to_double_def Let_def)
next
  case False
  then show ?thesis
    by (auto simp add: to_double_def Let_def)
qed

lemma to_double_relative_error:
  assumes "pow2 (- 1022) \<le> q"
  shows "to_double q = PosInf \<or> (\<exists>r. to_double q = Num r \<and> \<bar>r - q\<bar> \<le> q / 2 ^ 53)"
proof -
  have pos: "0 < q"
    using assms pow2_pos [of "- 1022"] by linarith
  then have abs: "\<bar>q\<bar> = q" and nz: "q \<noteq> 0" by simp_all
  show ?thesis
    using pos nz round_pos_relative [OF assms] by (simp add: to_double_overflow abs)
qed

lemma js_mul_relative_error:
  assumes "pow2 (- 1022) \<le> a * b"
  shows "js_mul (Num a) (Num b) = PosInf \<or>
         (\<exists>r. js_mul (Num a) (Num b) = Num r \<and> \<bar>r - a * b\<bar> \<le> a * b / 2 ^ 53)"
  using to_double_relative_error [OF assms] by simp

section \<open>Properties of the schema\<close>

lemma UpdateInvoice_eq: "UpdateInvoice = CreateInvoice"
  by (simp add: UpdateInvoice_def CreateInvoice_def)

lemma FormSchema_customerId_cases:
  "FormSchema_customerId v =
     (case v of Some (Text s) \<Rightarrow> Inr s | _ \<Rightarrow> Inl [(invalid_type, ''Please select a customer.'')])"
  by (simp add: FormSchema_customerId_def z_string_def invalid_type_message_def
           split: option.splits FormDataEntryValue.splits)

lemma FormSchema_amount_cases:
  "FormSchema_amount v =
     (if Number v = NaN then Inl [(invalid_type, ''Expected number, received nan'')]
      else if js_le (Number v) (Num 0)
        then Inl [(too_small, ''Please enter an amount greater than $0.'')]
      else Inr (Number v))"
  by (simp add: FormSchema_amount_def z_coerce_number_def Let_def)

lemma FormSchema_status_issue:
  "\<exists>i. FormSchema_status v = Inl [i] \<or>
       (\<exists>s. FormSchema_status v = Inr s \<and> v = Some (Text s) \<and> s \<in> {''pending'', ''paid''})"
  by (auto simp add: FormSchema_status_def z_enum_def
           split: option.splits FormDataEntryValue.splits)

lemma js_le_not_NaN: "js_le n b \<Longrightarrow> n \<noteq> NaN"
  by (cases n) auto

lemma CreateInvoice_amount_error:
  assumes "js_le (Number a) (Num 0)"
  shows "\<exists>issues. CreateInvoice (c, a, s) = Inl issues \<and>
           map_of (fieldErrors issues) ''amount'' = Some [''Please enter an amount greater than $0.'']"
proof -
  have am: "FormSchema_amount a = Inl [(too_small, ''Please enter an amount greater than $0.'')]"
    using assms js_le_not_NaN [OF assms] by (simp add: FormSchema_amount_cases)
  have ci: "FormSchema_customerId c = Inl [(invalid_type, ''Please select a customer.'')] \<or>
            (\<exists>ci. FormSchema_customerId c = Inr ci)"
    by (simp add: FormSchema_customerId_cases split: option.splits FormDataEntryValue.splits)
  have st: "\<exists>i. FormSchema_status s = Inl [i] \<or> (\<exists>t. FormSchema_status s = Inr t)"
    using FormSchema_status_issue [of s] by blast
  show ?thesis
    using ci st am
    by (auto simp add: CreateInvoice_def z_object_def field_issues_def fieldErrors_def Let_def
             split: prod.splits)
qed

section \<open>The two branches of the create and update actions\<close>

lemma createInvoice_Failure:
  "CreateInvoice (get formData ''customerId'', get formData ''amount'', get formData ''status'')
     = Inl issues \<Longrightarrow>
   createInvoice e prevState formData w =
     (Returned \<lparr>errors = Some (fieldErrors issues),
                message = Some ''Missing Fields. Failed to Create Invoice.''\<rparr>, w)"
  by (simp add: createInvoice_def safeParse_def)

lemma updateInvoice_Failure:
  "CreateInvoice (get formData ''customerId'', get formData ''amount'', get formData ''status'')
     = Inl issues \<Longrightarrow>
   updateInvoice e ident prevState formData w =
     (Returned \<lparr>errors = Some (fieldErrors issues),
                message = Some ''Missing Fields. Failed to Update Invoice.''\<rparr>, w)"
  by (simp add: updateInvoice_def safeParse_def UpdateInvoice_eq)

lemma createInvoice_Success:
  "CreateInvoice (get formData ''customerId'', get formData ''amount'', get formData ''status'')
     = Inr (customerId, amount, status) \<Longrightarrow>
   createInvoice e prevState formData w =
     (case sql e (INSERT_INTO_invoices customerId (js_mul amount (Num 100)) status
                    (split (CHR ''T'') (toISOString (now e)) ! 0)) w of
        (Inl err, w1) \<Rightarrow>
          (Returned \<lparr>errors = None, message = Some ''Database Error: Failed to Create Invoice.''\<rparr>, w1)
      | (Inr u, w1) \<Rightarrow>
          (Redirected ''/dashboard/invoices'', revalidatePath ''/dashboard/invoices'' w1))"
  by (simp add: createInvoice_def safeParse_def)

lemma updateInvoice_Success:
  "CreateInvoice (get formData ''customerId'', get formData ''amount'', get formData ''status'')
     = Inr (customerId, amount, status) \<Longrightarrow>
   updateInvoice e ident prevState formData w =
     (case sql e (UPDATE_invoices customerId (js_mul amount (Num 100)) status ident) w of
        (Inl err, w1) \<Rightarrow>
          (Returned \<lparr>errors = None, message = Some ''Database Error: Failed to Update Invoice.''\<rparr>, w1)
      | (Inr u, w1) \<Rightarrow>
          (Redirected ''/dashboard/invoices'', revalidatePath ''/dashboard/invoices'' w1))"
  by (simp add: updateInvoice_def safeParse_def UpdateInvoice_eq)

section \<open>Validation errors\<close>



text \<open>
  C10. When the form has no amount entry, or the entry is the empty string, \<^verbatim>\<open>Number\<close>
  gives \<open>0\<close>, so the create and the update action report, under \<^verbatim>\<open>amount\<close>, exactly the
  message of the \<^verbatim>\<open>gt(0)\<close> check, and no message about a missing field.
\<close>

theorem missing_amount_coerces_to_zero:
  assumes "get formData ''amount'' = None \<or> get formData ''amount'' = Some (Text [])"
  shows "Number (get formData ''amount'') = Num 0 \<and>
         (\<exists>errs. createInvoice e prevState formData w =
            (Returned \<lparr>errors = Some errs,
                       message = Some ''Missing Fields. Failed to Create Invoice.''\<rparr>, w) \<and>
            map_of errs ''amount'' = Some [''Please enter an amount greater than $0.'']) \<and>
         (\<exists>errs. updateInvoice e ident prevState formData w =
            (Returned \<lparr>errors = Some errs,
                       message = Some ''Missing Fields. Failed to Update Invoice.''\<rparr>, w) \<and>
            map_of errs ''amount'' = Some [''Please enter an amount greater than $0.''])"
proof -
  have z: "Number (get formData ''amount'') = Num 0"
    using assms by (auto simp add: StringToNumber_def trim_def)
  then have le: "js_le (Number (get formData ''amount'')) (Num 0)"
    by simp
  obtain issues where
    i: "CreateInvoice (get formData ''customerId'', get formData ''amount'', get formData ''status'')
          = Inl issues"
    and m: "map_of (fieldErrors issues) ''amount'' = Some [''Please enter an amount greater than $0.'']"
    using CreateInvoice_amount_error [OF le] by blast
  show ?thesis
    using z createInvoice_Failure [OF i] updateInvoice_Failure [OF i] m by simp
qed

theorem missing_amount_coerces_to_zero_witness:
  "(get no_amount_form ''amount'' = None \<or> get no_amount_form ''amount'' = Some (Text [])) \<and>
   Number (get no_amount_form ''amount'') = Num 0 \<and>
   (\<exists>errs. createInvoice accepting initialState no_amount_form two_rows =
            (Returned \<lparr>errors = Some errs,
                       message = Some ''Missing Fields. Failed to Create Invoice.''\<rparr>, two_rows) \<and>
            map_of errs ''amount'' = Some [''Please enter an amount greater than $0.'']) \<and>
   (\<exists>errs. updateInvoice accepting ''inv-2'' initialState no_amount_form two_rows =
            (Returned \<lparr>errors = Some errs,
                       message = Some ''Missing Fields. Failed to Update Invoice.''\<rparr>, two_rows) \<and>
            map_of errs ''amount'' = Some [''Please enter an amount greater than $0.''])"
proof -
  have h: "get no_amount_form ''amount'' = None \<or> get no_amount_form ''amount'' = Some (Text [])"
    by (simp add: get_def no_amount_form_def)
  show ?thesis
    using h missing_amount_coerces_to_zero [OF h] by simp
qed

section \<open>The result of \<^verbatim>\<open>safeParse\<close>\<close>

lemma js_lt_of_not_le: "n \<noteq> NaN \<Longrightarrow> \<not> js_le n (Num 0) \<Longrightarrow> js_lt (Num 0) n"
  by (cases n) auto

lemma CreateInvoice_Inr_iff:
  "CreateInvoice (c, a, s) = Inr (customerId, amount, status) \<longleftrightarrow>
     c = Some (Text customerId) \<and> amount = Number a \<and> Number a \<noteq> NaN \<and> \<not> js_le (Number a) (Num 0) \<and>
     s = Some (Text status) \<and> status \<in> {''pending'', ''paid''}"
  by (auto simp add: CreateInvoice_def z_object_def Let_def FormSchema_customerId_cases
        FormSchema_amount_cases FormSchema_status_def z_enum_def
        split: option.splits FormDataEntryValue.splits sum.splits if_splits)

lemma FormSchema_amount_issue:
  "(\<exists>i. FormSchema_amount v = Inl [i]) \<or> (\<exists>n. FormSchema_amount v = Inr n)"
  by (simp add: FormSchema_amount_cases)

lemma FormSchema_customerId_issue:
  "(\<exists>i. FormSchema_customerId v = Inl [i]) \<or> (\<exists>n. FormSchema_customerId v = Inr n)"
  by (simp add: FormSchema_customerId_cases split: option.splits FormDataEntryValue.splits)

lemma FormSchema_status_issue':
  "(\<exists>i. FormSchema_status v = Inl [i]) \<or> (\<exists>n. FormSchema_status v = Inr n)"
  using FormSchema_status_issue [of v] by blast

lemma CreateInvoice_Inl_fieldErrors:
  assumes "CreateInvoice (c, a, s) = Inl issues"
  shows "fieldErrors issues \<noteq> [] \<and> distinct (map fst (fieldErrors issues)) \<and>
         (\<forall>(k, ms) \<in> set (fieldErrors issues).
            k \<in> {''customerId'', ''amount'', ''status''} \<and> length ms = 1)"
  using assms FormSchema_customerId_issue [of c] FormSchema_amount_issue [of a]
    FormSchema_status_issue' [of s]
  by (auto simp add: CreateInvoice_def z_object_def field_issues_def fieldErrors_def Let_def
           split: prod.splits)

lemma CreateInvoice_Inl_lists:
  assumes "CreateInvoice (c, a, s) = Inl issues"
  shows "map_of (fieldErrors issues) ''customerId'' =
           (case c of Some (Text x) \<Rightarrow> None | _ \<Rightarrow> Some [''Please select a customer.'']) \<and>
         map_of (fieldErrors issues) ''amount'' =
           (if Number a = NaN then Some [''Expected number, received nan'']
            else if js_le (Number a) (Num 0) then Some [''Please enter an amount greater than $0.'']
            else None) \<and>
         map_of (fieldErrors issues) ''status'' =
           (case s of
              Some (Text t) \<Rightarrow>
                if t \<in> {''pending'', ''paid''} then None
                else Some [''Invalid enum value. Expected '' @ joinValues [''pending'', ''paid'']
                             @ '', received '' @ [CHR 0x27] @ t @ [CHR 0x27]]
            | _ \<Rightarrow> Some [''Please select an invoice status.''])"
  using assms
  by (auto simp add: CreateInvoice_def z_object_def field_issues_def fieldErrors_def Let_def
        FormSchema_customerId_cases FormSchema_amount_cases FormSchema_status_def z_enum_def
        invalid_type_message_def
        split: option.splits FormDataEntryValue.splits if_splits sum.splits)

text \<open>
  C7. For every raw input, \<^verbatim>\<open>safeParse\<close> returns one of two results and throws nothing.
  \<^verbatim>\<open>Success\<close> carries the typed data: the customer string, the coerced amount, above
  zero, and a status of the enumeration. \<^verbatim>\<open>Failure\<close> carries the issues, the ones
  \<^verbatim>\<open>parse\<close> would throw, and their flattened form lists, under each of the three field
  names, the one message of that field when it failed and nothing when it passed; at
  least one field is listed and no other key occurs. The update schema behaves as the
  create schema, and neither action ends by throwing.
\<close>

theorem safeParse_total_discriminated:
  "(case safeParse CreateInvoice (c, a, s) of
      Success (customerId, amount, status) \<Rightarrow>
        c = Some (Text customerId) \<and> amount = Number a \<and> js_lt (Num 0) amount \<and>
        s = Some (Text status) \<and> status \<in> {''pending'', ''paid''} \<and>
        parse CreateInvoice (c, a, s) = Inr (customerId, amount, status)
    | Failure issues \<Rightarrow>
        map_of (fieldErrors issues) ''customerId'' =
          (case c of Some (Text x) \<Rightarrow> None | _ \<Rightarrow> Some [''Please select a customer.'']) \<and>
        map_of (fieldErrors issues) ''amount'' =
          (if Number a = NaN then Some [''Expected number, received nan'']
           else if js_le (Number a) (Num 0) then Some [''Please enter an amount greater than $0.'']
           else None) \<and>
        map_of (fieldErrors issues) ''status'' =
          (case s of
             Some (Text t) \<Rightarrow>
               if t \<in> {''pending'', ''paid''} then None
               else Some [''Invalid enum value. Expected '' @ joinValues [''pending'', ''paid'']
                            @ '', received '' @ [CHR 0x27] @ t @ [CHR 0x27]]
           | _ \<Rightarrow> Some [''Please select an invoice status.'']) \<and>
        fieldErrors issues \<noteq> [] \<and> distinct (map fst (fieldErrors issues)) \<and>
        (\<forall>(k, ms) \<in> set (fieldErrors issues).
           k \<in> {''customerId'', ''amount'', ''status''} \<and> length ms = 1) \<and>
        parse CreateInvoice (c, a, s) = Inl (ZodError issues)) \<and>
   safeParse UpdateInvoice (c, a, s) = safeParse CreateInvoice (c, a, s) \<and>
   (\<forall>err. fst (createInvoice e prevState formData w) \<noteq> Thrown err) \<and>
   (\<forall>err. fst (updateInvoice e ident prevState formData w) \<noteq> Thrown err)"
proof -
  have p1: "case safeParse CreateInvoice (c, a, s) of
      Success (customerId, amount, status) \<Rightarrow>
        c = Some (Text customerId) \<and> amount = Number a \<and> js_lt (Num 0) amount \<and>
        s = Some (Text status) \<and> status \<in> {''pending'', ''paid''} \<and>
        parse CreateInvoice (c, a, s) = Inr (customerId, amount, status)
    | Failure issues \<Rightarrow>
        map_of (fieldErrors issues) ''customerId'' =
          (case c of Some (Text x) \<Rightarrow> None | _ \<Rightarrow> Some [''Please select a customer.'']) \<and>
        map_of (fieldErrors issues) ''amount'' =
          (if Number a = NaN then Some [''Expected number, received nan'']
           else if js_le (Number a) (Num 0) then Some [''Please enter an amount greater than $0.'']
           else None) \<and>
        map_of (fieldErrors issues) ''status'' =
          (case s of
             Some (Text t) \<Rightarrow>
               if t \<in> {''pending'', ''paid''} then None
               else Some [''Invalid enum value. Expected '' @ joinValues [''pending'', ''paid'']
                            @ '', received '' @ [CHR 0x27] @ t @ [CHR 0x27]]
           | _ \<Rightarrow> Some [''Please select an invoice status.'']) \<and>
        fieldErrors issues \<noteq> [] \<and> distinct (map fst (fieldErrors issues)) \<and>
        (\<forall>(k, ms) \<in> set (fieldErrors issues).
           k \<in> {''customerId'', ''amount'', ''status''} \<and> length ms = 1) \<and>
        parse CreateInvoice (c, a, s) = Inl (ZodError issues)"
  proof (cases "CreateInvoice (c, a, s)")
    case (Inl issues)
    show ?thesis
      using CreateInvoice_Inl_fieldErrors [OF Inl] CreateInvoice_Inl_lists [OF Inl] Inl
      by (simp add: safeParse_def parse_def)
  next
    case (Inr d)
    obtain customerId amount status where d: "d = (customerId, amount, status)"
      by (cases d) auto
    have "c = Some (Text customerId) \<and> amount = Number a \<and> Number a \<noteq> NaN \<and>
          \<not> js_le (Number a) (Num 0) \<and> s = Some (Text status) \<and> status \<in> {''pending'', ''paid''}"
      using Inr d CreateInvoice_Inr_iff [of c a s customerId amount status] by simp
    then show ?thesis
      using Inr d js_lt_of_not_le [of "Number a"] by (simp add: safeParse_def parse_def)
  qed
  have p2: "safeParse UpdateInvoice (c, a, s) = safeParse CreateInvoice (c, a, s)"
    by (simp add: UpdateInvoice_eq)
  have p3: "\<forall>err. fst (createInvoice e prevState formData w) \<noteq> Thrown err"
    by (auto simp add: createInvoice_def safeParse_def sql_def Let_def
             split: sum.splits prod.splits)
  have p4: "\<forall>err. fst (updateInvoice e ident prevState formData w) \<noteq> Thrown err"
    by (auto simp add: updateInvoice_def safeParse_def sql_def Let_def
             split: sum.splits prod.splits)
  show ?thesis
    using p1 p2 p3 p4 by blast
qed

theorem safeParse_total_discriminated_witness:
  "safeParse CreateInvoice (Some File, Some (Text ''-5''), Some (Text ''paid'')) =
     Failure
       [\<lparr>code = invalid_type, path = [''customerId''], issue_message = ''Please select a customer.''\<rparr>,
        \<lparr>code = too_small, path = [''amount''],
         issue_message = ''Please enter an amount greater than $0.''\<rparr>] \<and>
   map_of (fieldErrors
       [\<lparr>code = invalid_type, path = [''customerId''], issue_message = ''Please select a customer.''\<rparr>,
        \<lparr>code = too_small, path = [''amount''],
         issue_message = ''Please enter an amount greater than $0.''\<rparr>]) ''customerId''
     = Some [''Please select a customer.''] \<and>
   map_of (fieldErrors
       [\<lparr>code = invalid_type, path = [''customerId''], issue_message = ''Please select a customer.''\<rparr>,
        \<lparr>code = too_small, path = [''amount''],
         issue_message = ''Please enter an amount greater than $0.''\<rparr>]) ''amount''
     = Some [''Please enter an amount greater than $0.''] \<and>
   map_of (fieldErrors
       [\<lparr>code = invalid_type, path = [''customerId''], issue_message = ''Please select a customer.''\<rparr>,
        \<lparr>code = too_small, path = [''amount''],
         issue_message = ''Please enter an amount greater than $0.''\<rparr>]) ''status''
     = None \<and>
   parse CreateInvoice (Some File, Some (Text ''-5''), Some (Text ''paid'')) =
     Inl (ZodError
       [\<lparr>code = invalid_type, path = [''customerId''], issue_message = ''Please select a customer.''\<rparr>,
        \<lparr>code = too_small, path = [''amount''],
         issue_message = ''Please enter an amount greater than $0.''\<rparr>]) \<and>
   safeParse CreateInvoice (Some (Text ''c1''), Some (Text ''45.50''), Some (Text ''pending'')) =
     Success (''c1'', Num (91 / 2), ''pending'') \<and>
   js_lt (Num 0) (Num (91 / 2)) \<and>
   parse CreateInvoice (Some (Text ''c1''), Some (Text ''45.50''), Some (Text ''pending'')) =
     Inr (''c1'', Num (91 / 2), ''pending'')"
proof -
  have f: "safeParse CreateInvoice (Some File, Some (Text ''-5''), Some (Text ''paid'')) =
     Failure
       [\<lparr>code = invalid_type, path = [''customerId''], issue_message = ''Please select a customer.''\<rparr>,
        \<lparr>code = too_small, path = [''amount''],
         issue_message = ''Please enter an amount greater than $0.''\<rparr>]"
    by code_simp
  have s: "safeParse CreateInvoice (Some (Text ''c1''), Some (Text ''45.50''), Some (Text ''pending'')) =
     Success (''c1'', Num (91 / 2), ''pending'')"
    by code_simp
  have n: "StringToNumber ''45.50'' = Num (91 / 2)"
    by code_simp
  have m: "StringToNumber ''-5'' = Num (- 5)"
    by code_simp
  show ?thesis
    using f s n m
      safeParse_total_discriminated [where c = "Some File" and a = "Some (Text ''-5'')"
        and s = "Some (Text ''paid'')"]
      safeParse_total_discriminated [where c = "Some (Text ''c1'')" and a = "Some (Text ''45.50'')"
        and s = "Some (Text ''pending'')"]
    by simp
qed

section \<open>Persistence errors\<close>

text \<open>
  C5. For a submission that passes validation, when the driver throws on the
  \<^verbatim>\<open>INSERT\<close> the create action returns the state with the message
  \<^verbatim>\<open>Database Error: Failed to Create Invoice.\<close> and no \<open>errors\<close>, and when it throws on
  the \<^verbatim>\<open>UPDATE\<close> the update action returns the one with
  \<^verbatim>\<open>Database Error: Failed to Update Invoice.\<close>; the exception is caught (the action
  returns), no row changes and no path is revalidated.
\<close>

theorem write_failure_returns_generic_message:
  assumes "safeParse CreateInvoice
             (get formData ''customerId'', get formData ''amount'', get formData ''status'')
           = Success (customerId, amount, status)"
  shows "(sql_throws e (INSERT_INTO_invoices customerId (js_mul amount (Num 100)) status
                          (split (CHR ''T'') (toISOString (now e)) ! 0)) \<longrightarrow>
            fst (createInvoice e prevState formData w) =
              Returned \<lparr>errors = None, message = Some ''Database Error: Failed to Create Invoice.''\<rparr> \<and>
            invoices (snd (createInvoice e prevState formData w)) = invoices w \<and>
            revalidated (snd (createInvoice e prevState formData w)) = revalidated w) \<and>
         (sql_throws e (UPDATE_invoices customerId (js_mul amount (Num 100)) status ident) \<longrightarrow>
            fst (updateInvoice e ident prevState formData w) =
              Returned \<lparr>errors = None, message = Some ''Database Error: Failed to Update Invoice.''\<rparr> \<and>
            invoices (snd (updateInvoice e ident prevState formData w)) = invoices w \<and>
            revalidated (snd (updateInvoice e ident prevState formData w)) = revalidated w)"
proof -
  have ok: "CreateInvoice (get formData ''customerId'', get formData ''amount'', get formData ''status'')
              = Inr (customerId, amount, status)"
    using assms by (simp add: safeParse_def split: sum.splits)
  show ?thesis
    by (simp add: createInvoice_Success [OF ok] updateInvoice_Success [OF ok] sql_def)
qed

theorem write_failure_returns_generic_message_witness:
  "safeParse CreateInvoice
     (get valid_form ''customerId'', get valid_form ''amount'', get valid_form ''status'')
     = Success (''c1'', Num (91 / 2), ''pending'') \<and>
   sql_throws throwing (INSERT_INTO_invoices ''c1'' (js_mul (Num (91 / 2)) (Num 100)) ''pending''
                          (split (CHR ''T'') (toISOString (now throwing)) ! 0)) \<and>
   sql_throws throwing (UPDATE_invoices ''c1'' (js_mul (Num (91 / 2)) (Num 100)) ''pending'' ''inv-2'') \<and>
   fst (createInvoice throwing initialState valid_form two_rows) =
     Returned \<lparr>errors = None, message = Some ''Database Error: Failed to Create Invoice.''\<rparr> \<and>
   invoices (snd (createInvoice throwing initialState valid_form two_rows)) = invoices two_rows \<and>
   revalidated (snd (createInvoice throwing initialState valid_form two_rows)) = revalidated two_rows \<and>
   fst (updateInvoice throwing ''inv-2'' initialState valid_form two_rows) =
     Returned \<lparr>errors = None, message = Some ''Database Error: Failed to Update Invoice.''\<rparr> \<and>
   invoices (snd (updateInvoice throwing ''inv-2'' initialState valid_form two_rows)) = invoices two_rows \<and>
   revalidated (snd (updateInvoice throwing ''inv-2'' initialState valid_form two_rows)) = revalidated two_rows"
proof -
  have ok: "safeParse CreateInvoice
     (get valid_form ''customerId'', get valid_form ''amount'', get valid_form ''status'')
     = Success (''c1'', Num (91 / 2), ''pending'')"
    by code_simp
  have t: "\<And>st. sql_throws throwing st"
    by (simp add: throwing_def)
  show ?thesis
    using ok t write_failure_returns_generic_message [OF ok, where e = throwing and ident = "''inv-2''"
        and prevState = initialState and w = two_rows]
    by simp
qed

section \<open>Properties of the delete action\<close>

text \<open>
  C6. The delete action with the \<^verbatim>\<open>try\<close>/\<^verbatim>\<open>catch\<close> block sends the \<^verbatim>\<open>DELETE\<close> for the
  identifier. When the statement runs, the rows of that identifier are gone,
  \<^verbatim>\<open>/dashboard/invoices\<close> is revalidated and the action returns the message
  \<^verbatim>\<open>Deleted Invoice.\<close>; when it throws, the action returns the message
  \<^verbatim>\<open>Database Error: Failed to Delete Invoice.\<close>; it never redirects. (The delete action
  of \<^verbatim>\<open>app/lib/actions.ts\<close>, which returns nothing, is treated in the last section.)
\<close>

theorem deleteInvoice_removes_row_and_reports:
  "(\<not> sql_throws e (DELETE_FROM_invoices ident) \<longrightarrow>
      deleteInvoice e ident w =
        (Returned \<lparr>errors = None, message = Some ''Deleted Invoice.''\<rparr>,
         w\<lparr>statements := statements w @ [DELETE_FROM_invoices ident],
           invoices := filter (\<lambda>r. inv_id r \<noteq> ident) (invoices w),
           revalidated := revalidated w @ [''/dashboard/invoices'']\<rparr>)) \<and>
   (sql_throws e (DELETE_FROM_invoices ident) \<longrightarrow>
      fst (deleteInvoice e ident w) =
        Returned \<lparr>errors = None, message = Some ''Database Error: Failed to Delete Invoice.''\<rparr>) \<and>
   (\<forall>p. fst (deleteInvoice e ident w) \<noteq> Redirected p)"
  by (simp add: deleteInvoice_def sql_def revalidatePath_def Let_def)

theorem deleteInvoice_removes_row_and_reports_witness:
  "\<not> sql_throws accepting (DELETE_FROM_invoices ''inv-1'') \<and>
   deleteInvoice accepting ''inv-1'' two_rows =
     (Returned \<lparr>errors = None, message = Some ''Deleted Invoice.''\<rparr>,
      \<lparr>invoices =
         [\<lparr>inv_id = ''inv-2'', inv_customer_id = ''c2'', inv_amount = Num 250,
           inv_status = ''pending'', inv_date = ''2024-01-15''\<rparr>],
       statements = [DELETE_FROM_invoices ''inv-1''],
       revalidated = [''/dashboard/invoices'']\<rparr>) \<and>
   sql_throws throwing (DELETE_FROM_invoices ''inv-1'') \<and>
   fst (deleteInvoice throwing ''inv-1'' two_rows) =
     Returned \<lparr>errors = None, message = Some ''Database Error: Failed to Delete Invoice.''\<rparr>"
  using deleteInvoice_removes_row_and_reports [where e = accepting and ident = "''inv-1''" and w = two_rows]
    deleteInvoice_removes_row_and_reports [where e = throwing and ident = "''inv-1''" and w = two_rows]
  by (simp add: accepting_def throwing_def two_rows_def)

text \<open>
  C9. The delete action revalidates the listing only when the \<^verbatim>\<open>DELETE\<close> ran: when the
  statement throws, the action returns the error message and the list of revalidated
  paths, like the rows, is as it was.
\<close>

theorem deleteInvoice_revalidates_only_on_success:
  "revalidated (snd (deleteInvoice e ident w)) =
     (if sql_throws e (DELETE_FROM_invoices ident) then revalidated w
      else revalidated w @ [''/dashboard/invoices'']) \<and>
   (sql_throws e (DELETE_FROM_invoices ident) \<longrightarrow>
      deleteInvoice e ident w =
        (Returned \<lparr>errors = None, message = Some ''Database Error: Failed to Delete Invoice.''\<rparr>,
         w\<lparr>statements := statements w @ [DELETE_FROM_invoices ident]\<rparr>))"
  by (simp add: deleteInvoice_def sql_def revalidatePath_def)

theorem deleteInvoice_revalidates_only_on_success_witness:
  "sql_throws throwing (DELETE_FROM_invoices ''inv-1'') \<and>
   revalidated (snd (deleteInvoice throwing ''inv-1'' two_rows)) = [] \<and>
   deleteInvoice throwing ''inv-1'' two_rows =
     (Returned \<lparr>errors = None, message = Some ''Database Error: Failed to Delete Invoice.''\<rparr>,
      two_rows\<lparr>statements := [DELETE_FROM_invoices ''inv-1'']\<rparr>) \<and>
   revalidated (snd (deleteInvoice accepting ''inv-1'' two_rows)) = [''/dashboard/invoices'']"
  using deleteInvoice_revalidates_only_on_success [where e = throwing and ident = "''inv-1''" and w = two_rows]
    deleteInvoice_revalidates_only_on_success [where e = accepting and ident = "''inv-1''" and w = two_rows]
  by (simp add: accepting_def throwing_def two_rows_def)

section \<open>Properties of the update action\<close>

text \<open>
  C8. After an update that passed validation and whose statement ran, the table has as
  many rows as before; every row keeps its identifier and its date; a row with the given
  identifier has the submitted customer, the amount times \<open>100\<close> and the submitted
  status, and is otherwise as before; every other row is unchanged.
\<close>

theorem updateInvoice_frame:
  assumes "safeParse UpdateInvoice
             (get formData ''customerId'', get formData ''amount'', get formData ''status'')
           = Success (customerId, amount, status)"
    and "\<not> sql_throws e (UPDATE_invoices customerId (js_mul amount (Num 100)) status ident)"
  shows "length (invoices (snd (updateInvoice e ident prevState formData w))) = length (invoices w) \<and>
         (\<forall>k < length (invoices w).
            (let r = invoices w ! k; r' = invoices (snd (updateInvoice e ident prevState formData w)) ! k
             in inv_id r' = inv_id r \<and> inv_date r' = inv_date r \<and>
                (inv_id r = ident \<longrightarrow>
                   r' = r\<lparr>inv_customer_id := customerId, inv_amount := js_mul amount (Num 100),
                          inv_status := status\<rparr>) \<and>
                (inv_id r \<noteq> ident \<longrightarrow> r' = r)))"
proof -
  have ok: "CreateInvoice (get formData ''customerId'', get formData ''amount'', get formData ''status'')
              = Inr (customerId, amount, status)"
    using assms(1) by (simp add: safeParse_def UpdateInvoice_eq split: sum.splits)
  have rows: "invoices (snd (updateInvoice e ident prevState formData w)) =
        map (\<lambda>r. if inv_id r = ident
                 then r\<lparr>inv_customer_id := customerId, inv_amount := js_mul amount (Num 100),
                        inv_status := status\<rparr>
                 else r) (invoices w)"
    using assms(2) by (simp add: updateInvoice_Success [OF ok] sql_def revalidatePath_def)
  show ?thesis
    unfolding rows by (simp add: Let_def)
qed

theorem updateInvoice_frame_witness:
  "safeParse UpdateInvoice
     (get valid_form ''customerId'', get valid_form ''amount'', get valid_form ''status'')
     = Success (''c1'', Num (91 / 2), ''pending'') \<and>
   \<not> sql_throws accepting (UPDATE_invoices ''c1'' (js_mul (Num (91 / 2)) (Num 100)) ''pending'' ''inv-2'') \<and>
   invoices (snd (updateInvoice accepting ''inv-2'' initialState valid_form two_rows)) =
     [\<lparr>inv_id = ''inv-1'', inv_customer_id = ''c1'', inv_amount = Num 1000,
       inv_status = ''paid'', inv_date = ''2023-12-01''\<rparr>,
      \<lparr>inv_id = ''inv-2'', inv_customer_id = ''c1'', inv_amount = Num 4550,
       inv_status = ''pending'', inv_date = ''2024-01-15''\<rparr>]"
proof -
  have ok: "safeParse UpdateInvoice
     (get valid_form ''customerId'', get valid_form ''amount'', get valid_form ''status'')
     = Success (''c1'', Num (91 / 2), ''pending'')"
    by code_simp
  have nt: "\<not> sql_throws accepting (UPDATE_invoices ''c1'' (js_mul (Num (91 / 2)) (Num 100)) ''pending'' ''inv-2'')"
    by (simp add: accepting_def)
  have cents: "js_mul (Num (91 / 2)) (Num 100) = Num 4550"
    by code_simp
  have len: "length (invoices two_rows) = 2"
    by (simp add: two_rows_def)
  have r0: "invoices two_rows ! 0 = \<lparr>inv_id = ''inv-1'', inv_customer_id = ''c1'', inv_amount = Num 1000,
       inv_status = ''paid'', inv_date = ''2023-12-01''\<rparr>"
    and r1: "invoices two_rows ! 1 = \<lparr>inv_id = ''inv-2'', inv_customer_id = ''c2'', inv_amount = Num 250,
          inv_status = ''pending'', inv_date = ''2024-01-15''\<rparr>"
    by (simp_all add: two_rows_def)
  let ?rows = "invoices (snd (updateInvoice accepting ''inv-2'' initialState valid_form two_rows))"
  note fr = updateInvoice_frame [OF ok nt, where prevState = initialState and w = two_rows]
  have l2: "length ?rows = 2"
    using fr len by simp
  have k0: "?rows ! 0 = invoices two_rows ! 0"
    using fr len r0 by (simp add: Let_def)
  have k1: "?rows ! 1 = (invoices two_rows ! 1)\<lparr>inv_customer_id := ''c1'', inv_amount := Num 4550,
                          inv_status := ''pending''\<rparr>"
    using fr len r1 cents by (simp add: Let_def)
  have "?rows = [?rows ! 0, ?rows ! 1]"
    using l2 by (cases ?rows; cases "tl ?rows") auto
  then show ?thesis
    using ok nt k0 k1 r0 r1 by simp
qed

section \<open>Properties of the create action\<close>

lemma split_nonempty: "split c s \<noteq> []"
  by (induction s) (auto split: list.splits)

lemma split_first_piece: "c \<notin> set xs \<Longrightarrow> split c (xs @ c # ys) ! 0 = xs"
proof (induction xs)
  case Nil
  then show ?case by simp
next
  case (Cons x xs)
  then have ih: "split c (xs @ c # ys) ! 0 = xs" and ne: "x \<noteq> c"
    by auto
  obtain p ps where ps: "split c (xs @ c # ys) = p # ps"
    using split_nonempty [of c "xs @ c # ys"] by (cases "split c (xs @ c # ys)") auto
  show ?case
    using ih ne ps by simp
qed

lemma replicate_3: "replicate 3 x = [x, x, x]"
  by (simp add: numeral_eq_Suc)

lemma replicate_2: "replicate 2 x = [x, x]"
  by (simp add: numeral_eq_Suc)

lemma digit_char_not_T: "n < 10 \<Longrightarrow> CHR ''T'' \<noteq> digit_char n"
proof -
  assume "n < 10"
  then have "digit_char n \<in> set ''0123456789''"
    unfolding digit_char_def by (intro nth_mem) simp
  then show ?thesis by auto
qed

lemma dec_1: "n < 10 \<Longrightarrow> dec n = [digit_char n]"
  by (subst dec.simps) simp

lemma dec_2: "10 \<le> n \<Longrightarrow> n < 100 \<Longrightarrow> dec n = [digit_char (n div 10), digit_char (n mod 10)]"
  by (subst dec.simps) (simp add: dec_1)

lemma dec_3: "100 \<le> n \<Longrightarrow> n < 1000 \<Longrightarrow>
    dec n = [digit_char (n div 100), digit_char (n div 10 mod 10), digit_char (n mod 10)]"
  by (subst dec.simps) (simp add: dec_2 div_mult2_eq [symmetric])

lemma dec_4: "1000 \<le> n \<Longrightarrow> n < 10000 \<Longrightarrow>
    dec n = [digit_char (n div 1000), digit_char (n div 100 mod 10), digit_char (n div 10 mod 10),
             digit_char (n mod 10)]"
  by (subst dec.simps) (simp add: dec_3 div_mult2_eq [symmetric])

lemma pad_2: "n < 100 \<Longrightarrow> pad 2 (dec n) = [digit_char (n div 10), digit_char (n mod 10)]"
proof (cases "n < 10")
  case True
  then show ?thesis by (simp add: dec_1 pad_def digit_char_def)
next
  case False
  assume "n < 100"
  with False show ?thesis by (simp add: dec_2 pad_def)
qed

lemma pad_4: "n < 10000 \<Longrightarrow>
    pad 4 (dec n) = [digit_char (n div 1000), digit_char (n div 100 mod 10),
                     digit_char (n div 10 mod 10), digit_char (n mod 10)]"
proof -
  assume n: "n < 10000"
  consider "n < 10" | "10 \<le> n" "n < 100" | "100 \<le> n" "n < 1000" | "1000 \<le> n"
    by linarith
  then show ?thesis
  proof cases
    case 1
    then show ?thesis by (simp add: dec_1 pad_def digit_char_def replicate_3)
  next
    case 2
    then show ?thesis by (simp add: dec_2 pad_def digit_char_def replicate_2)
  next
    case 3
    then show ?thesis by (simp add: dec_3 pad_def digit_char_def)
  next
    case 4
    then show ?thesis using n by (simp add: dec_4 pad_def)
  qed
qed

lemma date_of_toISOString:
  assumes "0 \<le> year d" "year d \<le> 9999" "month d < 100" "day d < 100"
  shows "split (CHR ''T'') (toISOString d) ! 0 = YYYY_MM_DD d"
proof -
  let ?rest = "pad 2 (dec (hours d)) @ '':'' @ pad 2 (dec (minutes d)) @ '':''
     @ pad 2 (dec (seconds d)) @ ''.'' @ pad 3 (dec (milliseconds d)) @ ''Z''"
  have y: "nat (year d) < 10000"
    using assms by simp
  have iso: "toISOString d = YYYY_MM_DD d @ CHR ''T'' # ?rest"
    using assms by (simp add: toISOString_def YYYY_MM_DD_def pad_4 [OF y] pad_2 Let_def)
  have "nat (year d) div 1000 < 10" "nat (year d) div 100 mod 10 < 10"
    "nat (year d) div 10 mod 10 < 10" "nat (year d) mod 10 < 10"
    "month d div 10 < 10" "month d mod 10 < 10" "day d div 10 < 10" "day d mod 10 < 10"
    using y assms by simp_all
  then have "CHR ''T'' \<notin> set (YYYY_MM_DD d)"
    by (simp add: YYYY_MM_DD_def Let_def digit_char_not_T)
  then show ?thesis
    unfolding iso by (rule split_first_piece)
qed

text \<open>
  The create action on a submission that passes validation, at a date whose year has four
  digits and when the \<^verbatim>\<open>INSERT\<close> runs: one row is added, with the generated identifier,
  the submitted customer, the product \<^verbatim>\<open>amount * 100\<close> as it is computed, the submitted
  status and the current date as \<^verbatim>\<open>YYYY-MM-DD\<close>; the listing is revalidated and the action
  ends in the redirect, not in a returned value.
\<close>

lemma createInvoice_inserts_and_redirects:
  assumes "safeParse CreateInvoice
             (get formData ''customerId'', get formData ''amount'', get formData ''status'')
           = Success (customerId, amount, status)"
    and "0 \<le> year (now e)" and "year (now e) \<le> 9999"
    and "month (now e) \<le> 12" and "day (now e) \<le> 31"
    and "\<not> sql_throws e (INSERT_INTO_invoices customerId (js_mul amount (Num 100)) status
                            (YYYY_MM_DD (now e)))"
  shows "createInvoice e prevState formData w =
           (Redirected ''/dashboard/invoices'',
            w\<lparr>statements := statements w @
                   [INSERT_INTO_invoices customerId (js_mul amount (Num 100)) status
                      (YYYY_MM_DD (now e))],
              invoices := invoices w @
                   [\<lparr>inv_id = generated_id e, inv_customer_id = customerId,
                     inv_amount = js_mul amount (Num 100), inv_status = status,
                     inv_date = YYYY_MM_DD (now e)\<rparr>],
              revalidated := revalidated w @ [''/dashboard/invoices'']\<rparr>) \<and>
         get formData ''customerId'' = Some (Text customerId) \<and>
         amount = Number (get formData ''amount'') \<and>
         get formData ''status'' = Some (Text status) \<and>
         length (YYYY_MM_DD (now e)) = 10 \<and>
         (\<forall>st. fst (createInvoice e prevState formData w) \<noteq> Returned st)"
proof -
  have ok: "CreateInvoice (get formData ''customerId'', get formData ''amount'', get formData ''status'')
              = Inr (customerId, amount, status)"
    using assms(1) by (simp add: safeParse_def split: sum.splits)
  have date: "split (CHR ''T'') (toISOString (now e)) ! 0 = YYYY_MM_DD (now e)"
    using assms(2-5) by (intro date_of_toISOString) simp_all
  have run: "createInvoice e prevState formData w =
           (Redirected ''/dashboard/invoices'',
            w\<lparr>statements := statements w @
                   [INSERT_INTO_invoices customerId (js_mul amount (Num 100)) status
                      (YYYY_MM_DD (now e))],
              invoices := invoices w @
                   [\<lparr>inv_id = generated_id e, inv_customer_id = customerId,
                     inv_amount = js_mul amount (Num 100), inv_status = status,
                     inv_date = YYYY_MM_DD (now e)\<rparr>],
              revalidated := revalidated w @ [''/dashboard/invoices'']\<rparr>)"
    using assms(6) by (simp add: createInvoice_Success [OF ok] date sql_def revalidatePath_def)
  have data: "get formData ''customerId'' = Some (Text customerId) \<and>
         amount = Number (get formData ''amount'') \<and> get formData ''status'' = Some (Text status)"
    using ok CreateInvoice_Inr_iff by blast
  have len: "length (YYYY_MM_DD (now e)) = 10"
    by (simp add: YYYY_MM_DD_def Let_def)
  show ?thesis
    using run data len by simp
qed

lemma createInvoice_inserts_and_redirects_at_valid_form:
  "safeParse CreateInvoice
     (get valid_form ''customerId'', get valid_form ''amount'', get valid_form ''status'')
     = Success (''c1'', Num (91 / 2), ''pending'') \<and>
   0 \<le> year (now accepting) \<and> year (now accepting) \<le> 9999 \<and>
   month (now accepting) \<le> 12 \<and> day (now accepting) \<le> 31 \<and>
   \<not> sql_throws accepting (INSERT_INTO_invoices ''c1'' (js_mul (Num (91 / 2)) (Num 100)) ''pending''
                              (YYYY_MM_DD (now accepting))) \<and>
   createInvoice accepting initialState valid_form two_rows =
     (Redirected ''/dashboard/invoices'',
      two_rows\<lparr>statements := [INSERT_INTO_invoices ''c1'' (Num 4550) ''pending'' ''2024-03-07''],
        invoices := invoices two_rows @
          [\<lparr>inv_id = ''inv-3'', inv_customer_id = ''c1'', inv_amount = Num 4550,
            inv_status = ''pending'', inv_date = ''2024-03-07''\<rparr>],
        revalidated := [''/dashboard/invoices'']\<rparr>)"
proof -
  have ok: "safeParse CreateInvoice
     (get valid_form ''customerId'', get valid_form ''amount'', get valid_form ''status'')
     = Success (''c1'', Num (91 / 2), ''pending'')"
    by code_simp
  have y0: "0 \<le> year (now accepting)" and y1: "year (now accepting) \<le> 9999"
    and m: "month (now accepting) \<le> 12" and d: "day (now accepting) \<le> 31"
    by (simp_all add: accepting_def)
  have nt: "\<not> sql_throws accepting (INSERT_INTO_invoices ''c1'' (js_mul (Num (91 / 2)) (Num 100))
              ''pending'' (YYYY_MM_DD (now accepting)))"
    by (simp add: accepting_def)
  have cents: "to_double 4550 = Num 4550"
    by code_simp
  have today: "YYYY_MM_DD (now accepting) = ''2024-03-07''"
    by code_simp
  have gen: "generated_id accepting = ''inv-3''"
    by (simp add: accepting_def)
  have empty: "statements two_rows = []" "revalidated two_rows = []"
    by (simp_all add: two_rows_def)
  show ?thesis
    using ok y0 y1 m d nt
      createInvoice_inserts_and_redirects [OF ok y0 y1 m d nt, where prevState = initialState
        and w = two_rows]
    by (simp add: cents today gen empty)
qed

text \<open>
  C2. A validated submission is inserted with the submitted status and the date of the
  day as \<^verbatim>\<open>YYYY-MM-DD\<close>, the listing is revalidated and the action ends in the redirect,
  but the amount of the row is not the dollar amount in cents: for the submitted amount
  \<^verbatim>\<open>1.1\<close>, a hundred and ten cents, the row holds \<open>110 + 2 ^ - 46\<close>.
\<close>

theorem createInvoice_row_amount_not_in_cents:
  "safeParse CreateInvoice
     (get fractional_form ''customerId'', get fractional_form ''amount'',
      get fractional_form ''status'')
     = Success (''c1'', Num (2476979795053773 / 2251799813685248), ''pending'') \<and>
   createInvoice accepting initialState fractional_form two_rows =
     (Redirected ''/dashboard/invoices'',
      two_rows\<lparr>statements :=
          [INSERT_INTO_invoices ''c1'' (Num (110 + 1 / 2 ^ 46)) ''pending'' ''2024-03-07''],
        invoices := invoices two_rows @
          [\<lparr>inv_id = ''inv-3'', inv_customer_id = ''c1'', inv_amount = Num (110 + 1 / 2 ^ 46),
            inv_status = ''pending'', inv_date = ''2024-03-07''\<rparr>],
        revalidated := [''/dashboard/invoices'']\<rparr>) \<and>
   round (11 / 10 * 100 :: rat) = 110 \<and>
   Num (110 + 1 / 2 ^ 46) \<noteq> Num 110"
proof -
  have ok: "safeParse CreateInvoice
     (get fractional_form ''customerId'', get fractional_form ''amount'',
      get fractional_form ''status'')
     = Success (''c1'', Num (2476979795053773 / 2251799813685248), ''pending'')"
    by code_simp
  have y0: "0 \<le> year (now accepting)" and y1: "year (now accepting) \<le> 9999"
    and m: "month (now accepting) \<le> 12" and d: "day (now accepting) \<le> 31"
    by (simp_all add: accepting_def)
  have nt: "\<not> sql_throws accepting
              (INSERT_INTO_invoices ''c1''
                 (js_mul (Num (2476979795053773 / 2251799813685248)) (Num 100))
                 ''pending'' (YYYY_MM_DD (now accepting)))"
    by (simp add: accepting_def)
  have cents: "js_mul (Num (2476979795053773 / 2251799813685248)) (Num 100) = Num (110 + 1 / 2 ^ 46)"
    by code_simp
  have today: "YYYY_MM_DD (now accepting) = ''2024-03-07''"
    by code_simp
  have gen: "generated_id accepting = ''inv-3''"
    by (simp add: accepting_def)
  have empty: "statements two_rows = []" "revalidated two_rows = []"
    by (simp_all add: two_rows_def)
  have run: "createInvoice accepting initialState fractional_form two_rows =
     (Redirected ''/dashboard/invoices'',
      two_rows\<lparr>statements :=
          [INSERT_INTO_invoices ''c1'' (Num (110 + 1 / 2 ^ 46)) ''pending'' ''2024-03-07''],
        invoices := invoices two_rows @
          [\<lparr>inv_id = ''inv-3'', inv_customer_id = ''c1'', inv_amount = Num (110 + 1 / 2 ^ 46),
            inv_status = ''pending'', inv_date = ''2024-03-07''\<rparr>],
        revalidated := [''/dashboard/invoices'']\<rparr>)"
    using createInvoice_inserts_and_redirects [OF ok y0 y1 m d nt, where prevState = initialState
        and w = two_rows]
    unfolding cents today gen empty by simp
  have r: "round (11 / 10 * 100 :: rat) = 110"
    by code_simp
  have ne: "Num (110 + 1 / 2 ^ 46) \<noteq> Num 110"
    by simp
  show ?thesis
    using ok run r ne by blast
qed

text \<open>
  C3. The amount is stored as the product \<^verbatim>\<open>amount * 100\<close>, which is not rounded. For the
  submitted amount \<^verbatim>\<open>1.1\<close> the validated number is the double nearest to \<open>11 / 10\<close>, the
  rounding of a hundred times it is \<open>110\<close>, and both the create and the update action
  store \<open>110 + 2 ^ - 46\<close>.
\<close>

theorem cents_not_rounded_at_one_dollar_ten:
  "Number (get fractional_form ''amount'') = Num (2476979795053773 / 2251799813685248) \<and>
   \<bar>2476979795053773 / 2251799813685248 - 11 / 10\<bar> < (1 / 2 ^ 53 :: rat) \<and>
   round (2476979795053773 / 2251799813685248 * 100 :: rat) = 110 \<and>
   map inv_amount (invoices (snd (createInvoice accepting initialState fractional_form two_rows))) =
     [Num 1000, Num 250, Num (110 + 1 / 2 ^ 46)] \<and>
   map inv_amount (invoices (snd (updateInvoice accepting ''inv-1'' initialState fractional_form two_rows))) =
     [Num (110 + 1 / 2 ^ 46), Num 250] \<and>
   Num (110 + 1 / 2 ^ 46) \<noteq> Num 110"
proof -
  have a: "Number (get fractional_form ''amount'') = Num (2476979795053773 / 2251799813685248)"
    by code_simp
  have b: "\<bar>2476979795053773 / 2251799813685248 - 11 / 10\<bar> < (1 / 2 ^ 53 :: rat)"
    by simp
  have c: "round (2476979795053773 / 2251799813685248 * 100 :: rat) = 110"
    by code_simp
  have d: "map inv_amount (invoices (snd (createInvoice accepting initialState fractional_form two_rows))) =
     [Num 1000, Num 250, Num (110 + 1 / 2 ^ 46)]"
    by code_simp
  have e: "map inv_amount (invoices (snd (updateInvoice accepting ''inv-1'' initialState fractional_form two_rows))) =
     [Num (110 + 1 / 2 ^ 46), Num 250]"
    by code_simp
  have f: "Num (110 + 1 / 2 ^ 46) \<noteq> Num 110"
    by simp
  show ?thesis
    using a b c d e f by blast
qed

section \<open>Properties of the edit page\<close>




section \<open>Properties of the actions and the page without validation messages\<close>

text \<open>
  What the earlier forms do where the later ones differ: a validation failure and a
  failure of the driver leave the action as exceptions, an amount that is not positive is
  written, the delete action returns nothing, and the page renders the form without an
  invoice.
\<close>

lemma createInvoice_plain_ZodError:
  "CreateInvoice_plain (get formData ''customerId'', get formData ''amount'', get formData ''status'')
     = Inl issues \<Longrightarrow>
   createInvoice_plain e formData w = (Thrown (ZodError issues), w)"
  by (simp add: createInvoice_plain_def parse_def)

lemma updateInvoice_plain_ZodError:
  "UpdateInvoice_plain (get formData ''customerId'', get formData ''amount'', get formData ''status'')
     = Inl issues \<Longrightarrow>
   updateInvoice_plain e ident formData w = (Thrown (ZodError issues), w)"
  by (simp add: updateInvoice_plain_def parse_def)

lemma deleteInvoice_plain_cases:
  "deleteInvoice_plain e ident w =
     (if sql_throws e (DELETE_FROM_invoices ident)
      then (Thrown DatabaseError, w\<lparr>statements := statements w @ [DELETE_FROM_invoices ident]\<rparr>)
      else (Returned (),
            w\<lparr>statements := statements w @ [DELETE_FROM_invoices ident],
              invoices := filter (\<lambda>r. inv_id r \<noteq> ident) (invoices w),
              revalidated := revalidated w @ [''/dashboard/invoices'']\<rparr>))"
  by (simp add: deleteInvoice_plain_def sql_def revalidatePath_def Let_def)

lemma Page_plain_without_invoice:
  "fetchInvoiceById ident = Inr None \<Longrightarrow> fetchCustomers = Inr customers \<Longrightarrow>
   Page_plain second_first fetchInvoiceById fetchCustomers ident =
     Returned
       \<lparr>Breadcrumbs =
          [\<lparr>label = ''Invoices'', href = ''/dashboard/invoices'', active = None\<rparr>,
           \<lparr>label = ''Edit Invoice'',
            href = ''/dashboard/invoices/'' @ ident @ ''/edit'', active = Some True\<rparr>],
        Form_invoice = None, Form_customers = customers\<rparr>"
  by (simp add: Page_plain_def Promise_all_def)


text \<open>
  The delete action of \<^verbatim>\<open>app/lib/actions.ts\<close>: when the statement runs it removes the row
  and revalidates the listing but returns no message, and when the statement throws the
  exception leaves the action.
\<close>

theorem plain_delete_returns_no_message:
  "\<not> sql_throws accepting (DELETE_FROM_invoices ''inv-1'') \<and>
   deleteInvoice_plain accepting ''inv-1'' two_rows =
     (Returned (),
      \<lparr>invoices =
         [\<lparr>inv_id = ''inv-2'', inv_customer_id = ''c2'', inv_amount = Num 250,
           inv_status = ''pending'', inv_date = ''2024-01-15''\<rparr>],
       statements = [DELETE_FROM_invoices ''inv-1''],
       revalidated = [''/dashboard/invoices'']\<rparr>) \<and>
   sql_throws throwing (DELETE_FROM_invoices ''inv-1'') \<and>
   deleteInvoice_plain throwing ''inv-1'' two_rows =
     (Thrown DatabaseError,
      \<lparr>invoices = invoices two_rows, statements = [DELETE_FROM_invoices ''inv-1''],
       revalidated = []\<rparr>)"
  by (simp add: deleteInvoice_plain_cases accepting_def throwing_def two_rows_def)

end
